theory Spec2Isabelle
  imports Complex_Main
begin

section \<open>Data model (shield\_core.py)\<close>

text \<open>
  Python strings are \<^typ>\<open>string\<close>; text that is not ASCII is given by its UTF-8 bytes.
  Clock readings, the configured limits and the statistics that the heuristics layer
  computes with numpy are \<^typ>\<open>real\<close> numbers, their arithmetic taken as exact. The
  confidence of an assessment and the numbers of a JSON document are Python floats,
  modelled below with their rounding.
\<close>

subsection \<open>Python floats\<close>

text \<open>
  A \<open>float\<close> is an IEEE 754 double: a finite value, an infinity or NaN. The sign of zero
  is not modelled (\<open>-0.0 == 0.0\<close> holds in Python).
\<close>

datatype pyfloat = Finite real | PosInf | NegInf | NaN

text \<open>Rounding to the nearest integer, a tie going to the even one.\<close>

definition round_half_even :: "real \<Rightarrow> int" where
  "round_half_even y =
     (let f = \<lfloor>y\<rfloor>; r = y - of_int f
      in if r < 1 / 2 then f else if 1 / 2 < r then f + 1 else if even f then f else f + 1)"

text \<open>
  The exponent of the binade of a non-zero number, not below that of the subnormal
  numbers; and the double nearest to a real number: a multiple of \<open>2\<close> to the power
  \<open>binade x - 52\<close> (the significand has 53 bits), an infinity from \<open>2\<close> to the power
  1024 on.
\<close>

definition binade :: "real \<Rightarrow> int" where
  "binade x = max (- 1022) \<lfloor>log 2 \<bar>x\<bar>\<rfloor>"

definition round_double :: "real \<Rightarrow> pyfloat" where
  "round_double x =
     (if x = 0 then Finite 0
      else let quantum = 2 powi (binade x - 52);
               r = of_int (round_half_even (x / quantum)) * quantum
           in if 2 powi 1024 \<le> r then PosInf
              else if r \<le> - (2 powi 1024) then NegInf
              else Finite r)"

text \<open>The value of a decimal literal such as \<open>0.9\<close>: the double nearest to it.\<close>

definition float_literal :: "real \<Rightarrow> pyfloat" where
  "float_literal x = round_double x"

text \<open>
  Addition of two floats; division of a float by the length of a list (a positive
  \<open>int\<close>, which converts to a float exactly); and the comparison \<open><\<close>, which is false
  whenever NaN takes part.
\<close>

fun fl_add :: "pyfloat \<Rightarrow> pyfloat \<Rightarrow> pyfloat" where
  "fl_add (Finite x) (Finite y) = round_double (x + y)"
| "fl_add NaN y = NaN"
| "fl_add x NaN = NaN"
| "fl_add PosInf NegInf = NaN"
| "fl_add NegInf PosInf = NaN"
| "fl_add PosInf y = PosInf"
| "fl_add NegInf y = NegInf"
| "fl_add (Finite x) y = y"

fun fl_div_count :: "pyfloat \<Rightarrow> nat \<Rightarrow> pyfloat" where
  "fl_div_count (Finite x) n = round_double (x / real n)"
| "fl_div_count x n = x"

fun fl_less :: "pyfloat \<Rightarrow> pyfloat \<Rightarrow> bool" where
  "fl_less (Finite x) (Finite y) = (x < y)"
| "fl_less NaN y = False"
| "fl_less x NaN = False"
| "fl_less x NegInf = False"
| "fl_less PosInf y = False"
| "fl_less NegInf y = True"
| "fl_less (Finite x) PosInf = True"

text \<open>
  A number is an \<open>int\<close> (unbounded, \<open>True\<close> and \<open>False\<close> being 1 and 0) or a
  \<open>float\<close>. An \<open>int\<close> too large for a double does not convert: \<open>OverflowError\<close>.
\<close>

datatype pynum = PyInt int | PyFloat pyfloat

datatype error =
  KeyError | ValueError | TypeError | AttributeError | OverflowError | CallbackError

definition float_of_int :: "int \<Rightarrow> error + pyfloat" where
  "float_of_int i =
     (case round_double (of_int i) of
        Finite x \<Rightarrow> Inr (Finite x)
      | _ \<Rightarrow> Inl OverflowError)"

text \<open>
  \<open>x / len(xs)\<close> for a number \<open>x\<close>: the quotient of two \<open>int\<close>s is the double
  nearest to the exact quotient, and \<open>OverflowError\<close> where that is out of range.
\<close>

definition num_div_count :: "pynum \<Rightarrow> nat \<Rightarrow> error + pyfloat" where
  "num_div_count x n =
     (case x of
        PyFloat f \<Rightarrow> Inr (fl_div_count f n)
      | PyInt i \<Rightarrow>
         (case round_double (of_int i / real n) of
            Finite q \<Rightarrow> Inr (Finite q)
          | _ \<Rightarrow> Inl OverflowError))"

text \<open>
  \<open>x > c\<close> for a number \<open>x\<close> and a float \<open>c\<close>: an \<open>int\<close> is compared by its exact
  value.
\<close>

definition num_greater :: "pynum \<Rightarrow> pyfloat \<Rightarrow> bool" where
  "num_greater x c =
     (case x of PyFloat f \<Rightarrow> fl_less c f | PyInt i \<Rightarrow> fl_less c (Finite (of_int i)))"

subsection \<open>Levels, actions and assessments\<close>

datatype ThreatLevel = SAFE | SUSPICIOUS | CONCERNING | DANGEROUS | CRITICAL

text \<open>The \<open>.value\<close> of a \<open>ThreatLevel\<close> member.\<close>

fun level_value :: "ThreatLevel \<Rightarrow> nat" where
  "level_value SAFE = 0"
| "level_value SUSPICIOUS = 1"
| "level_value CONCERNING = 2"
| "level_value DANGEROUS = 3"
| "level_value CRITICAL = 4"

text \<open>The \<open>.name\<close> of a \<open>ThreatLevel\<close> member.\<close>

fun level_name :: "ThreatLevel \<Rightarrow> string" where
  "level_name SAFE = ''SAFE''"
| "level_name SUSPICIOUS = ''SUSPICIOUS''"
| "level_name CONCERNING = ''CONCERNING''"
| "level_name DANGEROUS = ''DANGEROUS''"
| "level_name CRITICAL = ''CRITICAL''"

datatype ActionType =
  API_CALL | FILE_OPERATION | NETWORK_REQUEST | CODE_EXECUTION
| SELF_MODIFICATION | AGENT_COMMUNICATION | RESOURCE_ALLOCATION

text \<open>The \<open>.value\<close> of an \<open>ActionType\<close> member.\<close>

fun action_type_value :: "ActionType \<Rightarrow> string" where
  "action_type_value API_CALL = ''api_call''"
| "action_type_value FILE_OPERATION = ''file_operation''"
| "action_type_value NETWORK_REQUEST = ''network_request''"
| "action_type_value CODE_EXECUTION = ''code_execution''"
| "action_type_value SELF_MODIFICATION = ''self_modification''"
| "action_type_value AGENT_COMMUNICATION = ''agent_communication''"
| "action_type_value RESOURCE_ALLOCATION = ''resource_allocation''"

datatype EnforcementAction =
  ALLOW | LOG | DELAY | REQUIRE_APPROVAL | SANDBOX | THROTTLE | BLOCK | QUARANTINE | KILL

text \<open>
  Values of type \<open>Any\<close>: action parameters and the JSON documents of the LLM backend.
  A dictionary is an association list, looked up from the front.
\<close>

datatype jval =
  JNull | JBool bool | JInt int | JFloat pyfloat | JStr string | JList "jval list" | JObj "(string \<times> jval) list"

text \<open>
  Truthiness of a value, and whether it can be a dictionary key. Keys that are equal as
  Python values but of different types (\<open>True\<close> and \<open>1\<close>) are not identified.
\<close>

fun truthy :: "jval \<Rightarrow> bool" where
  "truthy JNull = False"
| "truthy (JBool b) = b"
| "truthy (JInt i) = (i \<noteq> 0)"
| "truthy (JFloat f) = (f \<noteq> Finite 0)"
| "truthy (JStr s) = (s \<noteq> [])"
| "truthy (JList xs) = (xs \<noteq> [])"
| "truthy (JObj kvs) = (kvs \<noteq> [])"

fun hashable :: "jval \<Rightarrow> bool" where
  "hashable (JList xs) = False"
| "hashable (JObj kvs) = False"
| "hashable v = True"

text \<open>
  A quantity that the model computes over the reals (a resource reading, a configured
  limit, a score of the heuristics), as the float that is put into a message or an
  assessment.
\<close>

definition num_val :: "real \<Rightarrow> jval" where
  "num_val x = JFloat (round_double x)"

text \<open>\<open>d.get(k, default)\<close>\<close>

definition py_get :: "(string \<times> jval) list \<Rightarrow> string \<Rightarrow> jval \<Rightarrow> jval" where
  "py_get d k dflt = (case map_of d k of None \<Rightarrow> dflt | Some v \<Rightarrow> v)"

record AIAction =
  action_id :: string
  timestamp :: real
  action_type :: ActionType
  description :: string
  parameters :: "(string \<times> jval) list"
  agent_id :: string
  reasoning :: "string option"
  metadata :: "(string \<times> jval) list"

text \<open>
  \<open>ThreatAssessment\<close>. Its fields \<open>action_id\<close> and \<open>timestamp\<close> are named
  \<open>ta_action_id\<close> and \<open>ta_timestamp\<close> here, the names being taken by \<open>AIAction\<close>.
\<close>

record ThreatAssessment =
  ta_action_id :: string
  threat_level :: ThreatLevel
  confidence :: pyfloat
  reasons :: "string list"
  recommended_action :: EnforcementAction
  analysis_layer :: string
  ta_timestamp :: real


section \<open>SHIELDCore (shield\_core.py)\<close>

record AgentRecord =
  registered_at :: real
  agent_metadata :: "(string \<times> jval) list"
  action_count :: nat
  threat_count :: nat
  status :: string

record Metrics =
  total_actions :: nat
  blocked_actions :: nat
  threats_detected :: nat
  false_positives :: nat
  agent_kills :: nat

text \<open>
  The configuration keys the core reads. \<open>None\<close> is an absent key: \<open>.get\<close> then
  substitutes its default, and a subscript raises \<open>KeyError\<close>. \<open>other_keys\<close> tells
  whether the dictionary has a key besides \<open>'oracle'\<close> and \<open>'enforcement'\<close>.
\<close>

record OracleConfig =
  always_analyze :: "bool option"
  min_escalation_level :: "int option"
  critical_action_types :: "string list option"

record EnforcementConfig =
  quarantine_duration_seconds :: "real option"

record Config =
  oracle_section :: "OracleConfig option"
  enforcement_section :: "EnforcementConfig option"
  other_keys :: bool

text \<open>\<open>_default_config\<close>, which also has the sections of the perimeter and the heuristics.\<close>

definition default_config :: Config where
  "default_config =
     \<lparr> oracle_section = Some \<lparr> always_analyze = Some False,
          min_escalation_level = Some (int (level_value SUSPICIOUS)),
          critical_action_types = Some [action_type_value SELF_MODIFICATION,
                                        action_type_value CODE_EXECUTION] \<rparr>,
       enforcement_section = Some \<lparr> quarantine_duration_seconds = Some 3600 \<rparr>,
       other_keys = True \<rparr>"

datatype layer = Perimeter | Heuristics | Oracle | Enforcement

text \<open>
  A callback is called with an action by the three analysis layers and with an
  assessment by the enforcement. It either raises or returns; a returned value that is
  falsy (\<open>None\<close>) is dropped by an analysis layer, and the enforcement ignores what is
  returned.
\<close>

datatype cb_arg = ActionArg AIAction | AssessmentArg ThreatAssessment

datatype cb_outcome = Raises | Returns "ThreatAssessment option"

type_synonym callback = "cb_arg \<Rightarrow> cb_outcome"

text \<open>
  The state of a \<open>SHIELDCore\<close> object. Two fields are not attributes of the class:
  \<open>pending_releases\<close> holds the \<open>threading.Timer\<close>s started and not yet fired (duration
  and agent), and \<open>invocations\<close> logs every callback call (layer, position in the
  layer's list, id of the action or assessment passed), which is what a counting callback
  of the tests observes.
\<close>

record SHIELDCore =
  config :: Config
  action_queue :: "AIAction list"
  action_history :: "AIAction list"
  threat_history :: "ThreatAssessment list"
  is_running :: bool
  monitored_agents :: "string \<rightharpoonup> AgentRecord"
  blocked_agents :: "string set"
  layer_callbacks :: "layer \<Rightarrow> callback list"
  metrics :: Metrics
  pending_releases :: "(real \<times> string) list"
  invocations :: "(layer \<times> nat \<times> string) list"

text \<open>
  \<open>SHIELDCore(config)\<close>: \<open>config or self._default_config()\<close> takes the default for
  \<open>None\<close> and for the empty dictionary.
\<close>

definition config_or_default :: "Config option \<Rightarrow> Config" where
  "config_or_default cfg =
     (case cfg of
        None \<Rightarrow> default_config
      | Some c \<Rightarrow>
          if oracle_section c \<noteq> None \<or> enforcement_section c \<noteq> None \<or> other_keys c
          then c else default_config)"

definition init_core :: "Config option \<Rightarrow> SHIELDCore" where
  "init_core cfg = \<lparr>
     config = config_or_default cfg,
     action_queue = [], action_history = [], threat_history = [],
     is_running = False, monitored_agents = Map.empty, blocked_agents = {},
     layer_callbacks = (\<lambda>_. []),
     metrics = \<lparr> total_actions = 0, blocked_actions = 0, threats_detected = 0,
                 false_positives = 0, agent_kills = 0 \<rparr>,
     pending_releases = [], invocations = [] \<rparr>"

definition register_agent ::
  "SHIELDCore \<Rightarrow> real \<Rightarrow> string \<Rightarrow> (string \<times> jval) list \<Rightarrow> SHIELDCore" where
  "register_agent s now aid md =
     s\<lparr> monitored_agents := (monitored_agents s)(aid \<mapsto>
          \<lparr> registered_at = now, agent_metadata = md, action_count = 0,
            threat_count = 0, status = ''active'' \<rparr>) \<rparr>"

text \<open>\<open>submit_action\<close>: the returned string and the new state.\<close>

definition submit_action :: "SHIELDCore \<Rightarrow> AIAction \<Rightarrow> string \<times> SHIELDCore" where
  "submit_action s a =
     (if agent_id a \<in> blocked_agents s then (''BLOCKED'', s)
      else
        let s1 = s\<lparr> action_queue := action_queue s @ [a],
                    action_history := action_history s @ [a],
                    metrics := (metrics s)\<lparr> total_actions := total_actions (metrics s) + 1 \<rparr> \<rparr>;
            s2 = (case monitored_agents s1 (agent_id a) of
                    None \<Rightarrow> s1
                  | Some r \<Rightarrow> s1\<lparr> monitored_agents := (monitored_agents s1)(agent_id a \<mapsto>
                                   r\<lparr> action_count := action_count r + 1 \<rparr>) \<rparr>)
        in (action_id a, s2))"

text \<open>
  Python's \<open>max(xs, key=...)\<close> on a non-empty list: the first element whose key is
  maximal. \<open>max_from\<close> is the scan with the best element so far.
\<close>

fun max_from :: "('a \<Rightarrow> nat) \<Rightarrow> 'a \<Rightarrow> 'a list \<Rightarrow> 'a" where
  "max_from key best [] = best"
| "max_from key best (x # xs) = max_from key (if key best < key x then x else best) xs"

definition severity :: "ThreatAssessment \<Rightarrow> nat" where
  "severity t = level_value (threat_level t)"

text \<open>The assessments a layer's callbacks contribute, in order of registration.\<close>

fun collect_assessments :: "callback list \<Rightarrow> AIAction \<Rightarrow> ThreatAssessment list" where
  "collect_assessments [] a = []"
| "collect_assessments (cb # cbs) a =
     (case cb (ActionArg a) of
        Raises \<Rightarrow> collect_assessments cbs a
      | Returns None \<Rightarrow> collect_assessments cbs a
      | Returns (Some r) \<Rightarrow> r # collect_assessments cbs a)"

definition layer_result :: "callback list \<Rightarrow> AIAction \<Rightarrow> ThreatAssessment option" where
  "layer_result cbs a =
     (case collect_assessments cbs a of
        [] \<Rightarrow> None
      | r # rs \<Rightarrow> Some (max_from severity r rs))"

text \<open>\<open>_run_layer_callbacks\<close>: every callback of the layer is called once.\<close>

definition run_layer_callbacks ::
  "SHIELDCore \<Rightarrow> layer \<Rightarrow> AIAction \<Rightarrow> ThreatAssessment option \<times> SHIELDCore" where
  "run_layer_callbacks s l a =
     (layer_result (layer_callbacks s l) a,
      s\<lparr> invocations := invocations s @
            map (\<lambda>i. (l, i, action_id a)) [0 ..< length (layer_callbacks s l)] \<rparr>)"

text \<open>\<open>self.config.get('oracle', {})\<close> and the three \<open>.get\<close>s with their defaults.\<close>

definition oracle_config :: "SHIELDCore \<Rightarrow> OracleConfig" where
  "oracle_config s =
     (case oracle_section (config s) of
        None \<Rightarrow> \<lparr> always_analyze = None, min_escalation_level = None,
                  critical_action_types = None \<rparr>
      | Some oc \<Rightarrow> oc)"

definition get_always_analyze :: "OracleConfig \<Rightarrow> bool" where
  "get_always_analyze oc = (case always_analyze oc of None \<Rightarrow> False | Some b \<Rightarrow> b)"

definition get_critical_action_types :: "OracleConfig \<Rightarrow> string list" where
  "get_critical_action_types oc = (case critical_action_types oc of None \<Rightarrow> [] | Some ts \<Rightarrow> ts)"

definition get_min_escalation_level :: "OracleConfig \<Rightarrow> int" where
  "get_min_escalation_level oc =
     (case min_escalation_level oc of None \<Rightarrow> int (level_value SUSPICIOUS) | Some m \<Rightarrow> m)"

definition should_escalate_to_oracle ::
  "SHIELDCore \<Rightarrow> AIAction \<Rightarrow> ThreatAssessment option \<Rightarrow> ThreatAssessment option \<Rightarrow> bool" where
  "should_escalate_to_oracle s a perimeter_assessment heuristics_assessment =
     (let oracle_config = oracle_config s
      in if get_always_analyze oracle_config then True
         else if action_type_value (action_type a) \<in> set (get_critical_action_types oracle_config)
         then True
         else
           let min_level = get_min_escalation_level oracle_config;
               candidate_levels = map (\<lambda>t. int (severity t))
                  (List.map_filter id [perimeter_assessment, heuristics_assessment])
           in case candidate_levels of
                [] \<Rightarrow> False
              | c # cs \<Rightarrow> min_level \<le> fold max cs c)"

text \<open>The reason string of the synthesized assessment (UTF-8).\<close>

definition no_threat_reason :: string where
  "no_threat_reason =
     ''Nenhuma amea'' @ [CHR 0xC3, CHR 0xA7] @ ''a detectada em nenhuma camada''"

text \<open>
  \<open>_aggregate_assessments\<close>. \<open>float_sum\<close> stands for Python's built-in \<open>sum\<close> on a
  list of floats, whose rounding depends on the interpreter: before CPython 3.12 the
  items are added from left to right, from 3.12 on the rounding errors of the additions
  are compensated. The quotient by the length is rounded once.
\<close>

definition aggregate_assessments ::
  "(pyfloat list \<Rightarrow> pyfloat) \<Rightarrow> real \<Rightarrow> ThreatAssessment option list \<Rightarrow> ThreatAssessment" where
  "aggregate_assessments float_sum now assessments =
     (case List.map_filter id assessments of
        [] \<Rightarrow> \<lparr> ta_action_id = ''unknown'', threat_level = SAFE, confidence = Finite 1,
                reasons = [no_threat_reason], recommended_action = ALLOW,
                analysis_layer = ''aggregate'', ta_timestamp = now \<rparr>
      | v # vs \<Rightarrow>
          let valid_assessments = v # vs;
              max_threat = max_from severity v vs;
              all_reasons = concat (map reasons valid_assessments);
              total_confidence = float_sum (map confidence valid_assessments);
              avg_confidence = fl_div_count total_confidence (length valid_assessments)
          in \<lparr> ta_action_id = ta_action_id max_threat,
               threat_level = threat_level max_threat,
               confidence = avg_confidence,
               reasons = all_reasons,
               recommended_action = recommended_action max_threat,
               analysis_layer = ''aggregate'', ta_timestamp = now \<rparr>)"

text \<open>
  The end of \<open>process_action\<close>: the final assessment is appended to the threat
  history and, from \<open>CONCERNING\<close> on, counted.
\<close>

definition record_assessment :: "SHIELDCore \<Rightarrow> AIAction \<Rightarrow> ThreatAssessment \<Rightarrow> SHIELDCore" where
  "record_assessment s a final_assessment =
     (let s4 = s\<lparr> threat_history := threat_history s @ [final_assessment] \<rparr>
      in if level_value CONCERNING \<le> severity final_assessment
         then
           let s5 = s4\<lparr> metrics := (metrics s4)\<lparr> threats_detected :=
                         threats_detected (metrics s4) + 1 \<rparr> \<rparr>
           in (case monitored_agents s5 (agent_id a) of
                 None \<Rightarrow> s5
               | Some r \<Rightarrow> s5\<lparr> monitored_agents := (monitored_agents s5)
                    (agent_id a \<mapsto> r\<lparr> threat_count := threat_count r + 1 \<rparr>) \<rparr>)
         else s4)"

text \<open>
  The test \<open>perimeter_assessment and perimeter_assessment.threat_level.value >=
  ThreatLevel.DANGEROUS.value\<close>.
\<close>

definition short_circuits :: "ThreatAssessment option \<Rightarrow> bool" where
  "short_circuits p = (case p of None \<Rightarrow> False | Some x \<Rightarrow> level_value DANGEROUS \<le> severity x)"

text \<open>
  \<open>process_action\<close>; \<open>now\<close> is the clock reading that stamps an assessment created by
  the aggregation, \<open>float_sum\<close> the \<open>sum\<close> of the interpreter.
\<close>

definition process_action ::
  "(pyfloat list \<Rightarrow> pyfloat) \<Rightarrow> SHIELDCore \<Rightarrow> real \<Rightarrow> AIAction
     \<Rightarrow> ThreatAssessment \<times> SHIELDCore" where
  "process_action float_sum s now a =
     (case run_layer_callbacks s Perimeter a of
        (perimeter_assessment, s1) \<Rightarrow>
          (case (if short_circuits perimeter_assessment then perimeter_assessment else None) of
             Some p \<Rightarrow> (p, s1)
           | None \<Rightarrow>
              (case run_layer_callbacks s1 Heuristics a of
                 (heuristics_assessment, s2) \<Rightarrow>
                   (case (if should_escalate_to_oracle s2 a perimeter_assessment heuristics_assessment
                          then run_layer_callbacks s2 Oracle a else (None, s2)) of
                      (oracle_assessment, s3) \<Rightarrow>
                        let final_assessment = aggregate_assessments float_sum now
                              [perimeter_assessment, heuristics_assessment, oracle_assessment]
                        in (final_assessment, record_assessment s3 a final_assessment)))))"

definition set_status :: "SHIELDCore \<Rightarrow> string \<Rightarrow> string \<Rightarrow> SHIELDCore" where
  "set_status s aid st =
     (case monitored_agents s aid of
        None \<Rightarrow> s
      | Some r \<Rightarrow> s\<lparr> monitored_agents := (monitored_agents s)(aid \<mapsto> r\<lparr> status := st \<rparr>) \<rparr>)"

definition kill_agent :: "SHIELDCore \<Rightarrow> string \<Rightarrow> SHIELDCore" where
  "kill_agent s aid =
     (let s1 = s\<lparr> blocked_agents := insert aid (blocked_agents s) \<rparr>;
          s2 = set_status s1 aid ''killed''
      in s2\<lparr> metrics := (metrics s2)\<lparr> agent_kills := agent_kills (metrics s2) + 1 \<rparr> \<rparr>)"

text \<open>
  \<open>_quarantine_agent\<close>: the subscripts into the configuration raise \<open>KeyError\<close>
  after the agent has been blocked; otherwise a timer is started.
\<close>

definition quarantine_agent :: "SHIELDCore \<Rightarrow> string \<Rightarrow> error option \<times> SHIELDCore" where
  "quarantine_agent s aid =
     (let s1 = s\<lparr> blocked_agents := insert aid (blocked_agents s) \<rparr>;
          s2 = set_status s1 aid ''quarantined''
      in case enforcement_section (config s2) of
           None \<Rightarrow> (Some KeyError, s2)
         | Some ec \<Rightarrow>
            (case quarantine_duration_seconds ec of
               None \<Rightarrow> (Some KeyError, s2)
             | Some duration \<Rightarrow>
                (None, s2\<lparr> pending_releases := pending_releases s2 @ [(duration, aid)] \<rparr>)))"

definition release_quarantine :: "SHIELDCore \<Rightarrow> string \<Rightarrow> SHIELDCore" where
  "release_quarantine s aid =
     (if aid \<in> blocked_agents s
      then set_status (s\<lparr> blocked_agents := blocked_agents s - {aid} \<rparr>) aid ''active''
      else s)"

text \<open>
  The \<open>i\<close>-th pending timer fires: it leaves the pending list and runs the
  \<open>_release_quarantine\<close> of its agent. Nothing happens when there is no such timer.
\<close>

definition fire_release :: "SHIELDCore \<Rightarrow> nat \<Rightarrow> SHIELDCore" where
  "fire_release s i =
     (if i < length (pending_releases s)
      then release_quarantine
             (s\<lparr> pending_releases := take i (pending_releases s) @ drop (Suc i) (pending_releases s) \<rparr>)
             (snd (pending_releases s ! i))
      else s)"

text \<open>
  The loop over the enforcement callbacks: the first that raises ends it, the
  exception leaving \<open>enforce_action\<close>. Returns whether one raised and how many were called.
\<close>

fun run_enforcement_callbacks :: "callback list \<Rightarrow> ThreatAssessment \<Rightarrow> bool \<times> nat" where
  "run_enforcement_callbacks [] t = (False, 0)"
| "run_enforcement_callbacks (cb # cbs) t =
     (case cb (AssessmentArg t) of
        Raises \<Rightarrow> (True, 1)
      | Returns v \<Rightarrow> (let (r, n) = run_enforcement_callbacks cbs t in (r, Suc n)))"

text \<open>\<open>for history_action in reversed(self.action_history): if ...: break\<close>\<close>

definition find_history_action :: "SHIELDCore \<Rightarrow> string \<Rightarrow> AIAction option" where
  "find_history_action s aid = find (\<lambda>h. action_id h = aid) (rev (action_history s))"

definition enforce_action ::
  "SHIELDCore \<Rightarrow> ThreatAssessment \<Rightarrow> (error + bool) \<times> SHIELDCore" where
  "enforce_action s assessment =
     (let action = recommended_action assessment;
          (raised, n) = run_enforcement_callbacks (layer_callbacks s Enforcement) assessment;
          s1 = s\<lparr> invocations := invocations s @
                    map (\<lambda>i. (Enforcement, i, ta_action_id assessment)) [0 ..< n] \<rparr>
      in if raised then (Inl CallbackError, s1)
         else if action = BLOCK
         then (Inr False, s1\<lparr> metrics := (metrics s1)\<lparr> blocked_actions :=
                                  blocked_actions (metrics s1) + 1 \<rparr> \<rparr>)
         else if action = KILL
         then (case find_history_action s1 (ta_action_id assessment) of
                 None \<Rightarrow> (Inr False, s1)
               | Some h \<Rightarrow> (Inr False, kill_agent s1 (agent_id h)))
         else if action = QUARANTINE
         then (case find_history_action s1 (ta_action_id assessment) of
                 None \<Rightarrow> (Inr False, s1)
               | Some h \<Rightarrow>
                  (case quarantine_agent s1 (agent_id h) of
                     (Some e, s2) \<Rightarrow> (Inl e, s2)
                   | (None, s2) \<Rightarrow> (Inr False, s2)))
         else (Inr True, s1))"

text \<open>\<open>add_layer_callback\<close>: a name that is not a key of \<open>layer_callbacks\<close> is ignored.\<close>

fun layer_of_name :: "string \<Rightarrow> layer option" where
  "layer_of_name n =
     (if n = ''perimeter'' then Some Perimeter
      else if n = ''heuristics'' then Some Heuristics
      else if n = ''oracle'' then Some Oracle
      else if n = ''enforcement'' then Some Enforcement
      else None)"

definition add_layer_callback :: "SHIELDCore \<Rightarrow> string \<Rightarrow> callback \<Rightarrow> SHIELDCore" where
  "add_layer_callback s n cb =
     (case layer_of_name n of
        None \<Rightarrow> s
      | Some l \<Rightarrow> s\<lparr> layer_callbacks := (layer_callbacks s)(l := layer_callbacks s l @ [cb]) \<rparr>)"

text \<open>\<open>get_agent_report\<close>: the two comprehensions, and the counts of the report.\<close>

definition agent_actions :: "SHIELDCore \<Rightarrow> string \<Rightarrow> AIAction list" where
  "agent_actions s aid = filter (\<lambda>a. agent_id a = aid) (action_history s)"

definition agent_threats :: "SHIELDCore \<Rightarrow> string \<Rightarrow> ThreatAssessment list" where
  "agent_threats s aid =
     filter (\<lambda>t. list_ex (\<lambda>a. action_id a = ta_action_id t \<and> agent_id a = aid)
                          (agent_actions s aid))
            (threat_history s)"

record AgentReport =
  report_agent_id :: string
  info :: AgentRecord
  report_total_actions :: nat
  report_threats_detected :: nat
  threat_levels :: "(string \<times> nat) list"
  recent_actions :: "AIAction list"
  recent_threats :: "ThreatAssessment list"

definition get_agent_report :: "SHIELDCore \<Rightarrow> string \<Rightarrow> AgentReport option" where
  "get_agent_report s aid =
     (case monitored_agents s aid of
        None \<Rightarrow> None
      | Some r \<Rightarrow>
          let acts = agent_actions s aid; ths = agent_threats s aid
          in Some \<lparr> report_agent_id = aid, info = r,
                    report_total_actions = length acts,
                    report_threats_detected = length ths,
                    threat_levels = map (\<lambda>l. (level_name l, length (filter (\<lambda>t. threat_level t = l) ths)))
                                        [SAFE, SUSPICIOUS, CONCERNING, DANGEROUS, CRITICAL],
                    recent_actions = drop (length acts - 10) acts,
                    recent_threats = drop (length ths - 10) ths \<rparr>)"

text \<open>How often callbacks of a layer were called, according to a log.\<close>

definition call_count :: "layer \<Rightarrow> (layer \<times> nat \<times> string) list \<Rightarrow> nat" where
  "call_count l calls = length (filter (\<lambda>c. fst c = l) calls)"

text \<open>The log entries of one run of a layer's callbacks.\<close>

definition layer_calls :: "SHIELDCore \<Rightarrow> layer \<Rightarrow> AIAction \<Rightarrow> (layer \<times> nat \<times> string) list" where
  "layer_calls s l a = map (\<lambda>i. (l, i, action_id a)) [0 ..< length (layer_callbacks s l)]"

text \<open>
  What the oracle layer contributes to an action: its result when the escalation test
  passes, nothing otherwise.
\<close>

definition oracle_result :: "SHIELDCore \<Rightarrow> AIAction \<Rightarrow> ThreatAssessment option" where
  "oracle_result s a =
     (if should_escalate_to_oracle s a (layer_result (layer_callbacks s Perimeter) a)
           (layer_result (layer_callbacks s Heuristics) a)
      then layer_result (layer_callbacks s Oracle) a else None)"



section \<open>PerimeterDefense (layer\_perimeter.py)\<close>

subsection \<open>String methods\<close>

text \<open>
  \<open>rstrip\<close> and \<open>lstrip\<close> with a set of characters, \<open>s.split(c)[0]\<close>,
  \<open>endswith\<close>, \<open>startswith\<close> and the substring test \<open>p in s\<close>. These work on the
  characters as they are, so they are the same on UTF-8 bytes as on code points where the
  argument is ASCII, as it is at every use below.

  Three library functions are parameters of the model, for they depend on Unicode tables
  or on a grammar outside this repository: \<open>lower\<close> is \<open>str.lower\<close>; \<open>search\<close> tells
  whether \<open>re.search(pattern, text, re.IGNORECASE)\<close> finds a match; \<open>urlparse\<close> is
  \<open>urllib.parse.urlparse\<close> on a string, which may raise \<open>ValueError\<close>.
\<close>

definition lstrip :: "string \<Rightarrow> string \<Rightarrow> string" where
  "lstrip chars s = dropWhile (\<lambda>c. c \<in> set chars) s"

definition rstrip :: "string \<Rightarrow> string \<Rightarrow> string" where
  "rstrip chars s = rev (dropWhile (\<lambda>c. c \<in> set chars) (rev s))"

definition split_first :: "char \<Rightarrow> string \<Rightarrow> string" where
  "split_first sep s = takeWhile (\<lambda>c. c \<noteq> sep) s"

definition startswith :: "string \<Rightarrow> string \<Rightarrow> bool" where
  "startswith s p = (take (length p) s = p)"

definition endswith :: "string \<Rightarrow> string \<Rightarrow> bool" where
  "endswith s p = (length p \<le> length s \<and> drop (length s - length p) s = p)"

fun contains_str :: "string \<Rightarrow> string \<Rightarrow> bool" where
  "contains_str [] p = (p = [])"
| "contains_str (c # cs) p = (startswith (c # cs) p \<or> contains_str cs p)"

text \<open>
  A value inside an f-string: a string is itself, any other value is rendered by
  \<open>fmt\<close>, which stands for Python's conversion of values to text.
\<close>

definition py_str :: "(jval \<Rightarrow> string) \<Rightarrow> jval \<Rightarrow> string" where
  "py_str fmt v = (case v of JStr s \<Rightarrow> s | _ \<Rightarrow> fmt v)"

text \<open>Appending to a \<open>deque\<close> with \<open>maxlen\<close>: the oldest entries fall out.\<close>

definition deque_append :: "nat \<Rightarrow> 'a list \<Rightarrow> 'a \<Rightarrow> 'a list" where
  "deque_append maxlen xs x = (let ys = xs @ [x] in drop (length ys - maxlen) ys)"

subsection \<open>Configuration and state\<close>

record PerimeterConfig =
  max_api_calls_per_minute :: "real option"
  max_memory_mb :: "real option"
  max_cpu_percent :: "real option"
  allowed_domains :: "string list option"
  blocked_domains :: "string list option"

record PerimeterDefense =
  perimeter_config :: PerimeterConfig
  api_call_tracker :: "string \<Rightarrow> real list"
  suspicious_domains :: "string set"

definition init_perimeter :: "PerimeterConfig \<Rightarrow> PerimeterDefense" where
  "init_perimeter cfg =
     \<lparr> perimeter_config = cfg, api_call_tracker = (\<lambda>_. []), suspicious_domains = {} \<rparr>"

definition get_max_cpu :: "PerimeterConfig \<Rightarrow> real" where
  "get_max_cpu cfg = (case max_cpu_percent cfg of None \<Rightarrow> 80 | Some m \<Rightarrow> m)"

definition get_max_memory :: "PerimeterConfig \<Rightarrow> real" where
  "get_max_memory cfg = (case max_memory_mb cfg of None \<Rightarrow> 1024 | Some m \<Rightarrow> m)"

definition get_max_calls :: "PerimeterConfig \<Rightarrow> real" where
  "get_max_calls cfg = (case max_api_calls_per_minute cfg of None \<Rightarrow> 100 | Some m \<Rightarrow> m)"

definition get_blocked_domains :: "PerimeterConfig \<Rightarrow> string list" where
  "get_blocked_domains cfg = (case blocked_domains cfg of None \<Rightarrow> [] | Some ds \<Rightarrow> ds)"

definition get_allowed_domains :: "PerimeterConfig \<Rightarrow> string list" where
  "get_allowed_domains cfg = (case allowed_domains cfg of None \<Rightarrow> [] | Some ds \<Rightarrow> ds)"

text \<open>
  The simulated readings. In the checks below \<open>now\<close> is the reading of \<open>time.time()\<close>;
  one reading serves a whole call of \<open>analyze\<close>.
\<close>

definition get_agent_cpu_usage :: "string \<Rightarrow> real" where
  "get_agent_cpu_usage agent = 50"

definition get_agent_memory_usage :: "string \<Rightarrow> real" where
  "get_agent_memory_usage agent = 256"

subsection \<open>The checks\<close>

text \<open>
  \<open>_check_resource_limits\<close>. \<open>ThreatLevel\<close> is a plain \<open>Enum\<close>, whose members are not
  ordered: \<open>max(threat_level, ThreatLevel.CONCERNING)\<close> in the memory branch raises
  \<open>TypeError\<close>.
\<close>

definition check_resource_limits ::
  "(jval \<Rightarrow> string) \<Rightarrow> real \<Rightarrow> PerimeterDefense \<Rightarrow> AIAction \<Rightarrow> error + ThreatAssessment option" where
  "check_resource_limits fmt now p a =
     (let current_cpu = get_agent_cpu_usage (agent_id a);
          current_memory = get_agent_memory_usage (agent_id a);
          max_cpu = get_max_cpu (perimeter_config p);
          max_memory = get_max_memory (perimeter_config p);
          cpu_reasons = (if max_cpu < current_cpu
             then [''Uso de CPU excessivo: '' @ fmt (num_val current_cpu) @ ''% (limite: ''
                     @ fmt (num_val max_cpu) @ ''%)'']
             else [])
      in if max_memory < current_memory then Inl TypeError
         else if cpu_reasons = [] then Inr None
         else Inr (Some \<lparr> ta_action_id = action_id a, threat_level = CONCERNING,
                 confidence = float_literal (9 / 10), reasons = cpu_reasons,
                 recommended_action = THROTTLE,
                 analysis_layer = ''perimeter'', ta_timestamp = now \<rparr>))"

text \<open>\<open>_check_api_rate_limit\<close>: the result and the tracker after the call.\<close>

definition check_api_rate_limit ::
  "(jval \<Rightarrow> string) \<Rightarrow> real \<Rightarrow> PerimeterDefense \<Rightarrow> AIAction
     \<Rightarrow> ThreatAssessment option \<times> PerimeterDefense" where
  "check_api_rate_limit fmt now p a =
     (if action_type a \<noteq> API_CALL then (None, p)
      else
        let agent = agent_id a;
            calls = deque_append 1000 (api_call_tracker p agent) now;
            p1 = p\<lparr> api_call_tracker := (api_call_tracker p)(agent := calls) \<rparr>;
            one_minute_ago = now - 60;
            recent_calls = length (filter (\<lambda>t. one_minute_ago < t) calls);
            max_calls = get_max_calls (perimeter_config p)
        in if max_calls < real recent_calls
           then (Some \<lparr> ta_action_id = action_id a, threat_level = SUSPICIOUS,
                   confidence = float_literal (19 / 20),
                   reasons = [''Rate limit excedido: '' @ fmt (JInt (int recent_calls))
                                @ '' chamadas/min (limite: '' @ fmt (num_val max_calls) @ '')'',
                              ''Poss'' @ [CHR 0xC3, CHR 0xAD] @ ''vel tentativa de flooding ou DoS''],
                   recommended_action = THROTTLE,
                   analysis_layer = ''perimeter'', ta_timestamp = now \<rparr>, p1)
           else (None, p1))"

text \<open>
  The two components of the result of \<open>urlparse\<close> that \<open>_extract_domain\<close> reads, and
  \<open>_extract_domain\<close> on a string.
\<close>

record ParseResult =
  netloc :: string
  path :: string

definition extract_domain ::
  "(string \<Rightarrow> string) \<Rightarrow> (string \<Rightarrow> error + ParseResult) \<Rightarrow> string \<Rightarrow> error + string" where
  "extract_domain lower urlparse url =
     (case urlparse url of
        Inl e \<Rightarrow> Inl e
      | Inr parsed \<Rightarrow>
          let domain = rstrip ''.'' (lower
                 (if netloc parsed \<noteq> [] then netloc parsed
                  else split_first (CHR ''/'') (path parsed)))
          in Inr (split_first (CHR '':'') domain))"

definition domain_matches :: "(string \<Rightarrow> string) \<Rightarrow> string \<Rightarrow> string \<Rightarrow> bool" where
  "domain_matches lower domain rule_domain =
     (let normalized_rule = rstrip ''.'' (lstrip ''*.'' (lower rule_domain))
      in if domain = normalized_rule then True
         else endswith domain (''.'' @ normalized_rule))"

definition suspicious_url_patterns :: "string list" where
  "suspicious_url_patterns = [''eval('', ''exec('', ''base64'', ''shell'', ''cmd'']"

text \<open>
  \<open>_check_network_access\<close>. A \<open>url\<close> parameter that is not a string makes
  \<open>urlparse\<close> raise \<open>AttributeError\<close> when it is truthy (it has no \<open>decode\<close>); a
  falsy one is parsed as empty bytes, on which \<open>split('/')\<close> raises \<open>TypeError\<close>.
\<close>

definition check_network_access ::
  "(string \<Rightarrow> string) \<Rightarrow> (string \<Rightarrow> error + ParseResult) \<Rightarrow> real \<Rightarrow> PerimeterDefense
     \<Rightarrow> AIAction \<Rightarrow> (error + ThreatAssessment option) \<times> PerimeterDefense" where
  "check_network_access lower urlparse now p a =
     (if action_type a \<noteq> NETWORK_REQUEST then (Inr None, p)
      else case py_get (parameters a) ''url'' (JStr []) of
        JStr url \<Rightarrow>
          (case extract_domain lower urlparse url of
             Inl e \<Rightarrow> (Inl e, p)
           | Inr domain \<Rightarrow>
          (let blocked_domains = map lower (get_blocked_domains (perimeter_config p));
               allowed_domains = map lower (get_allowed_domains (perimeter_config p))
           in case find (\<lambda>blocked. domain_matches lower domain blocked) blocked_domains of
                Some blocked \<Rightarrow>
                  (Inr (Some \<lparr> ta_action_id = action_id a, threat_level = DANGEROUS,
                     confidence = Finite 1,
                     reasons = [''Acesso a dom'' @ [CHR 0xC3, CHR 0xAD] @ ''nio bloqueado: '' @ domain
                                  @ '' (regra: '' @ blocked @ '')''],
                     recommended_action = BLOCK,
                     analysis_layer = ''perimeter'', ta_timestamp = now \<rparr>), p)
              | None \<Rightarrow>
                  if allowed_domains \<noteq> []
                     \<and> \<not> list_ex (\<lambda>allowed. domain_matches lower domain allowed) allowed_domains
                  then (Inr (Some \<lparr> ta_action_id = action_id a, threat_level = SUSPICIOUS,
                     confidence = float_literal (4 / 5),
                     reasons = [''Acesso a dom'' @ [CHR 0xC3, CHR 0xAD] @ ''nio n''
                                  @ [CHR 0xC3, CHR 0xA3] @ ''o autorizado: '' @ domain,
                                ''Dom'' @ [CHR 0xC3, CHR 0xAD] @ ''nio n'' @ [CHR 0xC3, CHR 0xA3]
                                  @ ''o est'' @ [CHR 0xC3, CHR 0xA1] @ '' na whitelist''],
                     recommended_action = REQUIRE_APPROVAL,
                     analysis_layer = ''perimeter'', ta_timestamp = now \<rparr>), p)
                  else
                    (case find (\<lambda>pattern. contains_str (lower url) pattern)
                               suspicious_url_patterns of
                       Some pattern \<Rightarrow>
                         (Inr (Some \<lparr> ta_action_id = action_id a, threat_level = CONCERNING,
                            confidence = float_literal (7 / 10),
                            reasons = [''URL cont'' @ [CHR 0xC3, CHR 0xA9] @ ''m padr''
                                         @ [CHR 0xC3, CHR 0xA3] @ ''o suspeito: '' @ pattern],
                            recommended_action = SANDBOX,
                            analysis_layer = ''perimeter'', ta_timestamp = now \<rparr>),
                          p\<lparr> suspicious_domains := insert domain (suspicious_domains p) \<rparr>)
                     | None \<Rightarrow> (Inr None, p))))
      | v \<Rightarrow> (Inl (if truthy v then AttributeError else TypeError), p))"

text \<open>The forbidden patterns, as the regular expressions are written.\<close>

definition forbidden_patterns :: "string list" where
  "forbidden_patterns =
     [''/etc/shadow'',
      ''/etc/passwd'',
      [CHR 0x5C] @ ''.ssh/id_rsa'',
      ''C:'' @ [CHR 0x5C, CHR 0x5C] @ ''Windows'' @ [CHR 0x5C, CHR 0x5C] @ ''System32''
         @ [CHR 0x5C, CHR 0x5C] @ ''config'' @ [CHR 0x5C, CHR 0x5C] @ ''SAM'',
      [CHR 0x5C] @ ''.aws/credentials'',
      [CHR 0x5C] @ ''.kube/config'']"

definition dangerous_operations :: "jval list" where
  "dangerous_operations = [JStr ''delete'', JStr ''chmod'', JStr ''chown'', JStr ''execute'']"

definition system_paths :: "string list" where
  "system_paths = [''/etc'', ''/sys'', ''/proc'', ''C:'' @ [CHR 0x5C] @ ''Windows'',
                   ''C:'' @ [CHR 0x5C] @ ''Program Files'']"

text \<open>
  \<open>_check_forbidden_patterns\<close>. \<open>re.search\<close> raises \<open>TypeError\<close> on a \<open>path\<close>
  parameter that is not a string.
\<close>

definition check_forbidden_patterns ::
  "(jval \<Rightarrow> string) \<Rightarrow> (string \<Rightarrow> string \<Rightarrow> bool) \<Rightarrow> real \<Rightarrow> AIAction
     \<Rightarrow> error + ThreatAssessment option" where
  "check_forbidden_patterns fmt search now a =
     (if action_type a \<noteq> FILE_OPERATION then Inr None
      else case py_get (parameters a) ''path'' (JStr []) of
        JStr filepath \<Rightarrow>
          (let operation = py_get (parameters a) ''operation'' (JStr [])
           in case find (\<lambda>pattern. search pattern filepath) forbidden_patterns of
                Some pattern \<Rightarrow>
                  Inr (Some \<lparr> ta_action_id = action_id a, threat_level = CRITICAL,
                     confidence = Finite 1,
                     reasons = [''Tentativa de acesso a arquivo cr'' @ [CHR 0xC3, CHR 0xAD]
                                  @ ''tico do sistema: '' @ filepath,
                                ''Padr'' @ [CHR 0xC3, CHR 0xA3] @ ''o proibido detectado: '' @ pattern],
                     recommended_action = KILL,
                     analysis_layer = ''perimeter'', ta_timestamp = now \<rparr>)
              | None \<Rightarrow>
                  if operation \<in> set dangerous_operations
                     \<and> list_ex (\<lambda>sys_path. startswith filepath sys_path) system_paths
                  then Inr (Some \<lparr> ta_action_id = action_id a, threat_level = DANGEROUS,
                     confidence = float_literal (9 / 10),
                     reasons = [''Opera'' @ [CHR 0xC3, CHR 0xA7, CHR 0xC3, CHR 0xA3]
                                  @ ''o perigosa em diret'' @ [CHR 0xC3, CHR 0xB3] @ ''rio do sistema'',
                                ''Opera'' @ [CHR 0xC3, CHR 0xA7, CHR 0xC3, CHR 0xA3] @ ''o: ''
                                  @ py_str fmt operation @ '', Path: '' @ filepath],
                     recommended_action = BLOCK,
                     analysis_layer = ''perimeter'', ta_timestamp = now \<rparr>)
                  else Inr None)
      | _ \<Rightarrow> Inl TypeError)"

definition critical_modifications :: "jval list" where
  "critical_modifications =
     [JStr ''system_prompt'', JStr ''safety_constraints'', JStr ''monitoring_hooks'',
      JStr ''memory_structure'']"

definition check_self_modification ::
  "(jval \<Rightarrow> string) \<Rightarrow> real \<Rightarrow> AIAction \<Rightarrow> ThreatAssessment" where
  "check_self_modification fmt now a =
     (let modification_type = py_get (parameters a) ''modification_type'' (JStr []);
          target = py_get (parameters a) ''target'' (JStr []);
          rs = [''Tentativa de auto-modifica'' @ [CHR 0xC3, CHR 0xA7, CHR 0xC3, CHR 0xA3]
                  @ ''o detectada: '' @ py_str fmt modification_type,
                ''Alvo: '' @ py_str fmt target]
      in if modification_type \<in> set critical_modifications
         then \<lparr> ta_action_id = action_id a, threat_level = CRITICAL, confidence = Finite 1,
                reasons = rs @ [''Tentativa de modificar componentes cr'' @ [CHR 0xC3, CHR 0xAD]
                                  @ ''ticos''],
                recommended_action = KILL,
                analysis_layer = ''perimeter'', ta_timestamp = now \<rparr>
         else \<lparr> ta_action_id = action_id a, threat_level = SUSPICIOUS,
                confidence = float_literal (4 / 5),
                reasons = rs, recommended_action = REQUIRE_APPROVAL,
                analysis_layer = ''perimeter'', ta_timestamp = now \<rparr>)"

text \<open>
  \<open>PerimeterDefense.analyze\<close>: the five checks in order, an exception of one ending
  the call with the state as it then is, and the most severe of the threats found.
\<close>

definition option_to_list :: "'a option \<Rightarrow> 'a list" where
  "option_to_list x = (case x of None \<Rightarrow> [] | Some y \<Rightarrow> [y])"

definition perimeter_analyze ::
  "(jval \<Rightarrow> string) \<Rightarrow> (string \<Rightarrow> string) \<Rightarrow> (string \<Rightarrow> string \<Rightarrow> bool)
     \<Rightarrow> (string \<Rightarrow> error + ParseResult) \<Rightarrow> real \<Rightarrow> PerimeterDefense \<Rightarrow> AIAction
     \<Rightarrow> (error + ThreatAssessment option) \<times> PerimeterDefense" where
  "perimeter_analyze fmt lower search urlparse now p a =
     (case check_resource_limits fmt now p a of
        Inl e \<Rightarrow> (Inl e, p)
      | Inr resource_threat \<Rightarrow>
         (case check_api_rate_limit fmt now p a of
            (api_threat, p1) \<Rightarrow>
              (case check_network_access lower urlparse now p1 a of
                 (Inl e, p2) \<Rightarrow> (Inl e, p2)
               | (Inr network_threat, p2) \<Rightarrow>
                  (case check_forbidden_patterns fmt search now a of
                     Inl e \<Rightarrow> (Inl e, p2)
                   | Inr pattern_threat \<Rightarrow>
                      (let modification_threat =
                             (if action_type a = SELF_MODIFICATION
                              then Some (check_self_modification fmt now a) else None);
                           threats = option_to_list resource_threat @ option_to_list api_threat
                             @ option_to_list network_threat @ option_to_list pattern_threat
                             @ option_to_list modification_threat
                       in case threats of
                            [] \<Rightarrow> (Inr None, p2)
                          | t # ts \<Rightarrow> (Inr (Some (max_from severity t ts)), p2))))))"

section \<open>HeuristicAnalyzer (layer\_heuristics.py)\<close>

record HeuristicsConfig =
  anomaly_threshold :: "real option"
  pattern_window_size :: "nat option"
  learning_rate :: "real option"
  enable_adaptive_learning :: "bool option"
  baseline_actions_required :: "nat option"

definition get_anomaly_threshold :: "HeuristicsConfig \<Rightarrow> real" where
  "get_anomaly_threshold cfg = (case anomaly_threshold cfg of None \<Rightarrow> 7 / 10 | Some x \<Rightarrow> x)"

definition get_pattern_window_size :: "HeuristicsConfig \<Rightarrow> nat" where
  "get_pattern_window_size cfg = (case pattern_window_size cfg of None \<Rightarrow> 100 | Some n \<Rightarrow> n)"

definition get_learning_rate :: "HeuristicsConfig \<Rightarrow> real" where
  "get_learning_rate cfg = (case learning_rate cfg of None \<Rightarrow> 1 / 100 | Some x \<Rightarrow> x)"

definition get_enable_adaptive_learning :: "HeuristicsConfig \<Rightarrow> bool" where
  "get_enable_adaptive_learning cfg =
     (case enable_adaptive_learning cfg of None \<Rightarrow> True | Some b \<Rightarrow> b)"

definition get_baseline_actions_required :: "HeuristicsConfig \<Rightarrow> nat" where
  "get_baseline_actions_required cfg =
     (case baseline_actions_required cfg of None \<Rightarrow> 100 | Some n \<Rightarrow> n)"

text \<open>
  An agent's profile. The timestamps of the interactions with one target are a set, kept
  here as a list without repetitions.
\<close>

record AgentProfile =
  action_counts :: "string \<Rightarrow> nat"
  action_timings :: "string \<Rightarrow> real list"
  interaction_graph :: "jval \<Rightarrow> real list"
  baseline_established :: bool
  profile_total_actions :: nat
  anomaly_count :: nat
  creation_time :: real

definition create_empty_profile :: "real \<Rightarrow> AgentProfile" where
  "create_empty_profile now =
     \<lparr> action_counts = (\<lambda>_. 0), action_timings = (\<lambda>_. []), interaction_graph = (\<lambda>_. []),
       baseline_established = False, profile_total_actions = 0, anomaly_count = 0,
       creation_time = now \<rparr>"

record HeuristicAnalyzer =
  heuristics_config :: HeuristicsConfig
  agent_profiles :: "string \<rightharpoonup> AgentProfile"
  action_sequences :: "string \<Rightarrow> string list"
  feature_vectors :: "string \<Rightarrow> real list list"
  adaptive_thresholds :: "string \<rightharpoonup> real"

definition init_heuristics :: "HeuristicsConfig \<Rightarrow> HeuristicAnalyzer" where
  "init_heuristics cfg =
     \<lparr> heuristics_config = cfg, agent_profiles = Map.empty, action_sequences = (\<lambda>_. []),
       feature_vectors = (\<lambda>_. []), adaptive_thresholds = Map.empty \<rparr>"

record SuspiciousPattern =
  pattern_name :: string
  pattern_sequence :: "string list"
  pattern_weight :: real

definition suspicious_patterns :: "SuspiciousPattern list" where
  "suspicious_patterns =
     [\<lparr> pattern_name = ''privilege_escalation'',
         pattern_sequence = [''file_operation'', ''code_execution'', ''self_modification''],
         pattern_weight = 9 / 10 \<rparr>,
      \<lparr> pattern_name = ''data_exfiltration'',
         pattern_sequence = [''file_operation'', ''file_operation'', ''network_request''],
         pattern_weight = 17 / 20 \<rparr>,
      \<lparr> pattern_name = ''lateral_movement'',
         pattern_sequence = [''agent_communication'', ''code_execution'', ''agent_communication''],
         pattern_weight = 4 / 5 \<rparr>,
      \<lparr> pattern_name = ''reconnaissance'',
         pattern_sequence = [''api_call'', ''api_call'', ''file_operation'', ''network_request''],
         pattern_weight = 7 / 10 \<rparr>,
      \<lparr> pattern_name = ''resource_hoarding'',
         pattern_sequence = [''resource_allocation'', ''resource_allocation'', ''resource_allocation''],
         pattern_weight = 3 / 4 \<rparr>]"

definition calculate_threat_level :: "real \<Rightarrow> ThreatLevel" where
  "calculate_threat_level score =
     (if 9 / 10 \<le> score then CRITICAL
      else if 3 / 4 \<le> score then DANGEROUS
      else if 3 / 5 \<le> score then CONCERNING
      else if 2 / 5 \<le> score then SUSPICIOUS
      else SAFE)"

definition recommend_action :: "ThreatLevel \<Rightarrow> EnforcementAction" where
  "recommend_action l =
     (if l = CRITICAL then KILL
      else if l = DANGEROUS then QUARANTINE
      else if l = CONCERNING then SANDBOX
      else if l = SUSPICIOUS then REQUIRE_APPROVAL
      else LOG)"

text \<open>\<open>xs[-n:]\<close>, \<open>sep.join(xs)\<close>, \<open>np.diff\<close>, \<open>np.mean\<close> and \<open>np.std\<close>.\<close>

definition last_n :: "nat \<Rightarrow> 'a list \<Rightarrow> 'a list" where
  "last_n n xs = drop (length xs - n) xs"

fun join_str :: "string \<Rightarrow> string list \<Rightarrow> string" where
  "join_str sep [] = []"
| "join_str sep [x] = x"
| "join_str sep (x # y # ys) = x @ sep @ join_str sep (y # ys)"

definition np_diff :: "real list \<Rightarrow> real list" where
  "np_diff xs = map (\<lambda>(a, b). b - a) (zip xs (tl xs))"

definition np_mean :: "real list \<Rightarrow> real" where
  "np_mean xs = sum_list xs / real (length xs)"

definition np_std :: "real list \<Rightarrow> real" where
  "np_std xs = sqrt (np_mean (map (\<lambda>x. (x - np_mean xs)\<^sup>2) xs))"

definition update_profile :: "HeuristicsConfig \<Rightarrow> AgentProfile \<Rightarrow> AIAction \<Rightarrow> AgentProfile" where
  "update_profile cfg profile a =
     (let t = action_type_value (action_type a);
          p1 = profile\<lparr> profile_total_actions := profile_total_actions profile + 1,
                 action_counts := (action_counts profile)(t := action_counts profile t + 1),
                 action_timings := (action_timings profile)(t := action_timings profile t @ [timestamp a]) \<rparr>
      in if get_baseline_actions_required cfg \<le> profile_total_actions p1
            \<and> \<not> baseline_established p1
         then p1\<lparr> baseline_established := True \<rparr> else p1)"

text \<open>
  \<open>_detect_suspicious_patterns\<close>: the first pattern of the catalogue that the last
  entries of the agent's sequence spell out.
\<close>

definition detect_suspicious_patterns ::
  "real \<Rightarrow> HeuristicAnalyzer \<Rightarrow> AIAction \<Rightarrow> ThreatAssessment option" where
  "detect_suspicious_patterns now h a =
     (let sequence = action_sequences h (agent_id a)
      in if length sequence < 3 then None
         else case find (\<lambda>pattern. length (pattern_sequence pattern) \<le> length sequence
                          \<and> last_n (length (pattern_sequence pattern)) sequence
                              = pattern_sequence pattern)
                        suspicious_patterns of
                None \<Rightarrow> None
              | Some pattern \<Rightarrow>
                  let level = calculate_threat_level (pattern_weight pattern)
                  in Some \<lparr> ta_action_id = action_id a, threat_level = level,
                       confidence = float_literal (pattern_weight pattern),
                       reasons = [''Padr'' @ [CHR 0xC3, CHR 0xA3] @ ''o suspeito detectado: ''
                                    @ pattern_name pattern,
                                  ''Sequ'' @ [CHR 0xC3, CHR 0xAA] @ ''ncia: ''
                                    @ join_str ('' '' @ [CHR 0xE2, CHR 0x86, CHR 0x92] @ '' '')
                                        (pattern_sequence pattern)],
                       recommended_action = recommend_action level,
                       analysis_layer = ''heuristics'', ta_timestamp = now \<rparr>)"

text \<open>
  \<open>_extract_features\<close>. Python's \<open>hash\<close> of a string is salted per process, so the
  signal computed from the parameters is a parameter of the model, \<open>hash_signal\<close>.
\<close>

definition extract_features ::
  "((string \<times> jval) list \<Rightarrow> real) \<Rightarrow> AIAction \<Rightarrow> AgentProfile \<Rightarrow> real list" where
  "extract_features hash_signal a profile =
     map (\<lambda>ty. if action_type a = ty then 1 else 0)
         [API_CALL, FILE_OPERATION, NETWORK_REQUEST, CODE_EXECUTION, SELF_MODIFICATION,
          AGENT_COMMUNICATION, RESOURCE_ALLOCATION]
     @ [(timestamp a - 86400 * of_int \<lfloor>timestamp a / 86400\<rfloor>) / 86400,
        real (action_counts profile (action_type_value (action_type a)))
          / real (max (profile_total_actions profile) 1),
        hash_signal (parameters a)]"

text \<open>
  \<open>_calculate_deviation\<close>: the score and the feature history after the call. Every
  vector of the history is a result of \<open>extract_features\<close> and has the ten entries
  that \<open>features\<close> has, so each index read is in range.
\<close>

definition calculate_deviation :: "real list list \<Rightarrow> real list \<Rightarrow> real \<times> real list list" where
  "calculate_deviation feature_history features =
     (if length feature_history < 10 then (0, deque_append 1000 feature_history features)
      else
        let column = (\<lambda>i. map (\<lambda>v. v ! i) feature_history);
            normalized_distance = map (\<lambda>i. \<bar>features ! i - np_mean (column i)\<bar>
                                            / (np_std (column i) + 1 / 1000000))
                                      [0 ..< length features];
            deviation_score = min (np_mean normalized_distance / 3) 1
        in (deviation_score, deque_append 1000 feature_history features))"

definition detect_behavioral_deviation ::
  "(jval \<Rightarrow> string) \<Rightarrow> ((string \<times> jval) list \<Rightarrow> real) \<Rightarrow> real \<Rightarrow> HeuristicAnalyzer \<Rightarrow> AIAction
     \<Rightarrow> AgentProfile \<Rightarrow> ThreatAssessment option \<times> HeuristicAnalyzer" where
  "detect_behavioral_deviation fmt hash_signal now h a profile =
     (if \<not> baseline_established profile then (None, h)
      else
        let agent = agent_id a;
            current_features = extract_features hash_signal a profile;
            (deviation_score, history) = calculate_deviation (feature_vectors h agent) current_features;
            h1 = h\<lparr> feature_vectors := (feature_vectors h)(agent := history) \<rparr>;
            threshold = (case adaptive_thresholds h agent of
                           None \<Rightarrow> get_anomaly_threshold (heuristics_config h) | Some t \<Rightarrow> t)
        in if threshold < deviation_score
           then
             let level = calculate_threat_level deviation_score
             in (Some \<lparr> ta_action_id = action_id a, threat_level = level,
                   confidence = round_double deviation_score,
                   reasons = [''Desvio comportamental detectado: score '' @ fmt (num_val deviation_score),
                              ''Threshold: '' @ fmt (num_val threshold),
                              ''Comportamento diverge do padr'' @ [CHR 0xC3, CHR 0xA3]
                                @ ''o estabelecido''],
                   recommended_action = recommend_action level,
                   analysis_layer = ''heuristics'', ta_timestamp = now \<rparr>, h1)
           else (None, h1))"

definition detect_temporal_anomalies ::
  "(jval \<Rightarrow> string) \<Rightarrow> real \<Rightarrow> AIAction \<Rightarrow> AgentProfile \<Rightarrow> ThreatAssessment option" where
  "detect_temporal_anomalies fmt now a profile =
     (let timings = action_timings profile (action_type_value (action_type a))
      in if length timings < 10 then None
         else
           let intervals = np_diff (last_n 20 timings);
               mean_interval = np_mean intervals;
               std_interval = np_std intervals;
               current_interval = last timings - last (butlast timings);
               burst_rate = length (filter (\<lambda>i. i < mean_interval * (1 / 2)) (last_n 10 intervals))
           in if current_interval < mean_interval - 2 * std_interval \<and> 5 \<le> burst_rate
              then Some \<lparr> ta_action_id = action_id a, threat_level = SUSPICIOUS,
                     confidence = float_literal (3 / 4),
                     reasons = [''Burst de atividade detectado: '' @ fmt (JInt (int burst_rate))
                                  @ '' a'' @ [CHR 0xC3, CHR 0xA7, CHR 0xC3, CHR 0xB5] @ ''es r''
                                  @ [CHR 0xC3, CHR 0xA1] @ ''pidas'',
                                ''Intervalo atual: '' @ fmt (num_val current_interval)
                                  @ ''s vs m'' @ [CHR 0xC3, CHR 0xA9] @ ''dia: ''
                                  @ fmt (num_val mean_interval) @ ''s''],
                     recommended_action = THROTTLE,
                     analysis_layer = ''heuristics'', ta_timestamp = now \<rparr>
              else None)"

text \<open>
  \<open>_detect_suspicious_interactions\<close>: the result and the profile after the call. A
  target that cannot be a dictionary key raises \<open>TypeError\<close>.
\<close>

definition detect_suspicious_interactions ::
  "(jval \<Rightarrow> string) \<Rightarrow> real \<Rightarrow> AIAction \<Rightarrow> AgentProfile
     \<Rightarrow> (error + ThreatAssessment option) \<times> AgentProfile" where
  "detect_suspicious_interactions fmt now a profile =
     (if action_type a \<noteq> AGENT_COMMUNICATION then (Inr None, profile)
      else
        let target_agent = py_get (parameters a) ''target_agent'' JNull
        in if \<not> truthy target_agent then (Inr None, profile)
           else if \<not> hashable target_agent then (Inl TypeError, profile)
           else
             let stamps = List.insert (timestamp a) (interaction_graph profile target_agent);
                 p1 = profile\<lparr> interaction_graph := (interaction_graph profile)(target_agent := stamps) \<rparr>;
                 recent_interactions = filter (\<lambda>ts. now - 60 < ts) stamps
             in if 10 < length recent_interactions
                then (Inr (Some \<lparr> ta_action_id = action_id a, threat_level = CONCERNING,
                        confidence = float_literal (4 / 5),
                        reasons = [''Comunica'' @ [CHR 0xC3, CHR 0xA7, CHR 0xC3, CHR 0xA3]
                                     @ ''o excessiva com agente '' @ py_str fmt target_agent,
                                   fmt (JInt (int (length recent_interactions)))
                                     @ '' mensagens no '' @ [CHR 0xC3, CHR 0xBA] @ ''ltimo minuto'',
                                   ''Poss'' @ [CHR 0xC3, CHR 0xAD] @ ''vel coordena''
                                     @ [CHR 0xC3, CHR 0xA7, CHR 0xC3, CHR 0xA3] @ ''o para ataque''],
                        recommended_action = SANDBOX,
                        analysis_layer = ''heuristics'', ta_timestamp = now \<rparr>), p1)
                else (Inr None, p1))"

definition sensitivity_level :: "string \<Rightarrow> real" where
  "sensitivity_level s =
     (if s = ''api_call'' then 1
      else if s = ''file_operation'' then 2
      else if s = ''network_request'' then 2
      else if s = ''code_execution'' then 3
      else if s = ''agent_communication'' then 2
      else if s = ''resource_allocation'' then 2
      else if s = ''self_modification'' then 4
      else 0)"

definition detect_escalation ::
  "(jval \<Rightarrow> string) \<Rightarrow> real \<Rightarrow> HeuristicAnalyzer \<Rightarrow> AIAction \<Rightarrow> ThreatAssessment option" where
  "detect_escalation fmt now h a =
     (let sequence = action_sequences h (agent_id a)
      in if length sequence < 10 then None
         else
           let recent_levels = map sensitivity_level (last_n 10 sequence);
               first_half = np_mean (take 5 recent_levels);
               second_half = np_mean (drop 5 recent_levels);
               escalation_ratio = second_half / (first_half + 1 / 10)
           in if 3 / 2 < escalation_ratio \<and> 3 \<le> second_half
              then Some \<lparr> ta_action_id = action_id a, threat_level = DANGEROUS,
                     confidence = float_literal (17 / 20),
                     reasons = [''Escalada gradual de privil'' @ [CHR 0xC3, CHR 0xA9]
                                  @ ''gios detectada'',
                                ''Raz'' @ [CHR 0xC3, CHR 0xA3] @ ''o de escalada: ''
                                  @ fmt (num_val escalation_ratio),
                                ''Agente est'' @ [CHR 0xC3, CHR 0xA1]
                                  @ '' progressivamente tentando a''
                                  @ [CHR 0xC3, CHR 0xA7, CHR 0xC3, CHR 0xB5] @ ''es mais sens''
                                  @ [CHR 0xC3, CHR 0xAD] @ ''veis''],
                     recommended_action = QUARANTINE,
                     analysis_layer = ''heuristics'', ta_timestamp = now \<rparr>
              else None)"

definition adaptive_learning :: "HeuristicAnalyzer \<Rightarrow> string \<Rightarrow> AgentProfile \<Rightarrow> HeuristicAnalyzer" where
  "adaptive_learning h agent profile =
     (let rate = get_learning_rate (heuristics_config h);
          current_threshold = (case adaptive_thresholds h agent of
                                 None \<Rightarrow> get_anomaly_threshold (heuristics_config h) | Some t \<Rightarrow> t);
          anomaly_rate = real (anomaly_count profile) / real (max (profile_total_actions profile) 1);
          new_threshold = (if 1 / 10 < anomaly_rate then current_threshold + rate
                           else if anomaly_rate < 1 / 100 then current_threshold - rate
                           else current_threshold)
      in h\<lparr> adaptive_thresholds := (adaptive_thresholds h)
              (agent \<mapsto> min (max new_threshold (1 / 2)) (19 / 20)) \<rparr>)"

text \<open>
  \<open>HeuristicAnalyzer.analyze\<close>. The profile is created at its first use; the action's
  type enters the agent's sequence before the detectors run.
\<close>

definition heuristic_analyze ::
  "(jval \<Rightarrow> string) \<Rightarrow> ((string \<times> jval) list \<Rightarrow> real) \<Rightarrow> real \<Rightarrow> HeuristicAnalyzer \<Rightarrow> AIAction
     \<Rightarrow> (error + ThreatAssessment option) \<times> HeuristicAnalyzer" where
  "heuristic_analyze fmt hash_signal now h a =
     (let agent = agent_id a;
          profile0 = (case agent_profiles h agent of
                        None \<Rightarrow> create_empty_profile now | Some p \<Rightarrow> p);
          profile1 = update_profile (heuristics_config h) profile0 a;
          h1 = h\<lparr> action_sequences := (action_sequences h)(agent :=
                    deque_append (get_pattern_window_size (heuristics_config h))
                      (action_sequences h agent) (action_type_value (action_type a))) \<rparr>;
          pattern_threat = detect_suspicious_patterns now h1 a;
          (deviation_threat, h2) = detect_behavioral_deviation fmt hash_signal now h1 a profile1;
          temporal_threat = detect_temporal_anomalies fmt now a profile1
      in case detect_suspicious_interactions fmt now a profile1 of
           (Inl e, profile2) \<Rightarrow> (Inl e, h2\<lparr> agent_profiles := (agent_profiles h2)(agent \<mapsto> profile2) \<rparr>)
         | (Inr interaction_threat, profile2) \<Rightarrow>
            (let escalation_threat = detect_escalation fmt now h2 a;
                 threats = option_to_list pattern_threat @ option_to_list deviation_threat
                   @ option_to_list temporal_threat @ option_to_list interaction_threat
                   @ option_to_list escalation_threat
             in case threats of
                  [] \<Rightarrow> (Inr None, h2\<lparr> agent_profiles := (agent_profiles h2)(agent \<mapsto> profile2) \<rparr>)
                | t # ts \<Rightarrow>
                   (let max_threat = max_from severity t ts;
                        profile3 = (if level_value SUSPICIOUS \<le> severity max_threat
                                    then profile2\<lparr> anomaly_count := anomaly_count profile2 + 1 \<rparr>
                                    else profile2);
                        h3 = h2\<lparr> agent_profiles := (agent_profiles h2)(agent \<mapsto> profile3) \<rparr>;
                        h4 = (if get_enable_adaptive_learning (heuristics_config h3)
                              then adaptive_learning h3 agent profile3 else h3)
                    in (Inr (Some max_threat), h4))))"

text \<open>
  A run of \<open>analyze\<close> over a list of calls, each with its clock reading. An exception
  ends its call only: the analyzer keeps the state reached.
\<close>

fun analyze_all ::
  "(jval \<Rightarrow> string) \<Rightarrow> ((string \<times> jval) list \<Rightarrow> real) \<Rightarrow> HeuristicAnalyzer
     \<Rightarrow> (real \<times> AIAction) list \<Rightarrow> HeuristicAnalyzer" where
  "analyze_all fmt hash_signal h [] = h"
| "analyze_all fmt hash_signal h ((now, a) # rest) =
     analyze_all fmt hash_signal (snd (heuristic_analyze fmt hash_signal now h a)) rest"

text \<open>\<open>self.agent_profiles[agent_id]\<close>: the agent's profile, a new one at the first use.\<close>

definition profile_of :: "HeuristicAnalyzer \<Rightarrow> real \<Rightarrow> string \<Rightarrow> AgentProfile" where
  "profile_of h now g = (case agent_profiles h g of None \<Rightarrow> create_empty_profile now | Some p \<Rightarrow> p)"

section \<open>OracleAnalyzer (layer\_oracle.py)\<close>

text \<open>
  The backend is a parameter of the model. For each of the three analyses it gives what
  \<open>json.loads(self._query_llm(prompt))\<close> does: it raises (\<open>Malformed\<close>) or returns a
  JSON value. \<open>_query_llm\<close> itself never raises: on a timeout, a transport error or a
  status other than 200 it returns \<open>'{}'\<close>, which parses to the empty object. The
  context of a call enters only the cache key and the prompts; the key is a parameter too.
\<close>

datatype llm_reply = Malformed | Parsed jval

record LLMReplies =
  intent_reply :: llm_reply
  alignment_reply :: llm_reply
  deception_reply :: llm_reply

record OracleAnalyzerConfig =
  min_confidence :: "pyfloat option"
  enable_caching :: "bool option"
  cache_ttl_seconds :: "real option"

definition get_min_confidence :: "OracleAnalyzerConfig \<Rightarrow> pyfloat" where
  "get_min_confidence cfg =
     (case min_confidence cfg of None \<Rightarrow> float_literal (3 / 5) | Some x \<Rightarrow> x)"

definition get_enable_caching :: "OracleAnalyzerConfig \<Rightarrow> bool" where
  "get_enable_caching cfg = (case enable_caching cfg of None \<Rightarrow> True | Some b \<Rightarrow> b)"

definition get_cache_ttl_seconds :: "OracleAnalyzerConfig \<Rightarrow> real" where
  "get_cache_ttl_seconds cfg = (case cache_ttl_seconds cfg of None \<Rightarrow> 3600 | Some x \<Rightarrow> x)"

text \<open>The dictionary \<open>analyses\<close>: a key is present when its analysis gave a truthy result.\<close>

record Analyses =
  intent_analysis :: "jval option"
  alignment_analysis :: "jval option"
  deception_analysis :: "jval option"

record IntentRecord =
  ir_action_id :: string
  ir_agent_id :: string
  ir_timestamp :: real
  ir_analyses :: Analyses
  final_threat :: string

record OracleAnalyzer =
  oracle_analyzer_config :: OracleAnalyzerConfig
  analysis_cache :: "string \<rightharpoonup> ThreatAssessment \<times> real"
  intent_history :: "IntentRecord list"

definition init_oracle :: "OracleAnalyzerConfig \<Rightarrow> OracleAnalyzer" where
  "init_oracle cfg =
     \<lparr> oracle_analyzer_config = cfg, analysis_cache = Map.empty, intent_history = [] \<rparr>"

text \<open>Sequencing of steps that may raise.\<close>

definition bind_err :: "error + 'a \<Rightarrow> ('a \<Rightarrow> error + 'b) \<Rightarrow> error + 'b" where
  "bind_err m f = (case m of Inl e \<Rightarrow> Inl e | Inr x \<Rightarrow> f x)"

text \<open>
  \<open>v.get\<close> needs a dictionary; \<open>list.extend(v)\<close> needs an iterable (the characters of
  a string, the keys of a dictionary); arithmetic and comparison with a float need a
  number (\<open>True\<close> is 1).
\<close>

definition as_dict :: "jval \<Rightarrow> error + (string \<times> jval) list" where
  "as_dict v = (case v of JObj d \<Rightarrow> Inr d | _ \<Rightarrow> Inl AttributeError)"

text \<open>
  The characters of a string given by its UTF-8 bytes: a byte from \<open>0x80\<close> to \<open>0xBF\<close>
  continues the character before it.
\<close>

definition continuation_byte :: "char \<Rightarrow> bool" where
  "continuation_byte c = (128 \<le> (of_char c :: nat) \<and> (of_char c :: nat) < 192)"

function utf8_chars :: "string \<Rightarrow> string list" where
  "utf8_chars [] = []"
| "utf8_chars (c # cs) =
     (c # takeWhile continuation_byte cs) # utf8_chars (dropWhile continuation_byte cs)"
  by pat_completeness auto

termination utf8_chars
  by (relation "measure length") (auto simp: less_Suc_eq_le length_dropWhile_le)

definition extend_with :: "(jval \<Rightarrow> string) \<Rightarrow> jval \<Rightarrow> error + string list" where
  "extend_with fmt v =
     (case v of
        JList xs \<Rightarrow> Inr (map (py_str fmt) xs)
      | JStr s \<Rightarrow> Inr (utf8_chars s)
      | JObj d \<Rightarrow> Inr (map fst d)
      | _ \<Rightarrow> Inl TypeError)"

definition as_number :: "jval \<Rightarrow> error + pynum" where
  "as_number v =
     (case v of
        JInt i \<Rightarrow> Inr (PyInt i)
      | JFloat f \<Rightarrow> Inr (PyFloat f)
      | JBool b \<Rightarrow> Inr (PyInt (if b then 1 else 0))
      | _ \<Rightarrow> Inl TypeError)"

text \<open>
  \<open>sum(values)\<close>. \<open>num_sum\<close> stands for Python's built-in \<open>sum\<close> on a list of
  numbers: \<open>int\<close>s are added exactly, and the rounding of a sum of floats depends on the
  interpreter (from left to right before CPython 3.12, compensated from 3.12 on); it
  raises \<open>OverflowError\<close> where an \<open>int\<close> too large for a double meets a float. The
  items are taken in order, so a value that is not a number raises \<open>TypeError\<close> when
  the numbers before it have been added.
\<close>

fun numbers_prefix :: "jval list \<Rightarrow> pynum list" where
  "numbers_prefix [] = []"
| "numbers_prefix (v # vs) =
     (case as_number v of Inl e \<Rightarrow> [] | Inr n \<Rightarrow> n # numbers_prefix vs)"

definition sum_values :: "(pynum list \<Rightarrow> error + pynum) \<Rightarrow> jval list \<Rightarrow> error + pynum" where
  "sum_values num_sum vs =
     (let nums = numbers_prefix vs
      in case num_sum nums of
           Inl e \<Rightarrow> Inl e
         | Inr result \<Rightarrow> if length nums < length vs then Inl TypeError else Inr result)"

definition threat_mapping :: "string \<Rightarrow> ThreatLevel option" where
  "threat_mapping s =
     (if s = ''SAFE'' then Some SAFE
      else if s = ''SUSPICIOUS'' then Some SUSPICIOUS
      else if s = ''CONCERNING'' then Some CONCERNING
      else if s = ''DANGEROUS'' then Some DANGEROUS
      else if s = ''CRITICAL'' then Some CRITICAL
      else None)"

text \<open>
  The key function of \<open>max(threat_levels, key=...)\<close>: the test \<open>t in threat_mapping\<close>
  raises \<open>TypeError\<close> on a value that cannot be a dictionary key.
\<close>

definition threat_key :: "jval \<Rightarrow> error + nat" where
  "threat_key t =
     (if \<not> hashable t then Inl TypeError
      else case t of
        JStr s \<Rightarrow> Inr (case threat_mapping s of None \<Rightarrow> 0 | Some l \<Rightarrow> level_value l)
      | _ \<Rightarrow> Inr 0)"

fun map_err :: "('a \<Rightarrow> error + 'b) \<Rightarrow> 'a list \<Rightarrow> error + 'b list" where
  "map_err f [] = Inr []"
| "map_err f (x # xs) =
     bind_err (f x) (\<lambda>y. bind_err (map_err f xs) (\<lambda>ys. Inr (y # ys)))"

text \<open>The first of the values whose key is greatest; \<open>dflt\<close> where there is none.\<close>

definition first_max_by :: "('a \<times> nat) list \<Rightarrow> 'a \<Rightarrow> 'a" where
  "first_max_by pairs dflt = (case pairs of [] \<Rightarrow> dflt | p # ps \<Rightarrow> fst (max_from snd p ps))"

text \<open>
  \<open>_rule_based_intent_analysis\<close>, the fallback of the intent analysis. \<open>.lower()\<close> on
  a \<open>code\<close> or \<open>url\<close> parameter that is not a string raises \<open>AttributeError\<close>;
  \<open>lower\<close> is \<open>str.lower\<close>.
\<close>

definition dangerous_keywords :: "string list" where
  "dangerous_keywords = [''eval'', ''exec'', ''compile'', ''__import__'', ''subprocess'']"

definition rule_based_intent_analysis :: "(string \<Rightarrow> string) \<Rightarrow> AIAction \<Rightarrow> error + jval" where
  "rule_based_intent_analysis lower a =
     bind_err
       (if action_type a = SELF_MODIFICATION
        then Inr (''CRITICAL'',
                  [''Auto-modifica'' @ [CHR 0xC3, CHR 0xA7, CHR 0xC3, CHR 0xA3]
                     @ ''o sempre requer an'' @ [CHR 0xC3, CHR 0xA1] @ ''lise profunda''])
        else if action_type a = CODE_EXECUTION
        then (case py_get (parameters a) ''code'' (JStr []) of
                JStr code \<Rightarrow>
                  let found = filter (\<lambda>keyword. contains_str (lower code) keyword)
                                     dangerous_keywords
                  in Inr (if found = [] then ''SAFE'' else ''DANGEROUS'',
                          map (\<lambda>keyword. ''C'' @ [CHR 0xC3, CHR 0xB3] @ ''digo cont''
                                 @ [CHR 0xC3, CHR 0xA9] @ ''m keyword perigosa: '' @ keyword) found)
              | _ \<Rightarrow> Inl AttributeError)
        else if action_type a = NETWORK_REQUEST
        then (case py_get (parameters a) ''url'' (JStr []) of
                JStr url \<Rightarrow>
                  if list_ex (\<lambda>suspicious. contains_str (lower url) suspicious)
                       [''pastebin'', ''raw.githubusercontent'', ''bit.ly'']
                  then Inr (''SUSPICIOUS'', [''URL de origem suspeita para comando externo''])
                  else Inr (''SAFE'', [])
              | _ \<Rightarrow> Inl AttributeError)
        else Inr (''SAFE'', []))
       (\<lambda>(level, red_flags). Inr (JObj
          [(''intent'', JStr (''Executar '' @ action_type_value (action_type a))),
           (''hidden_intents'', JList []),
           (''deception_detected'', JBool False),
           (''deception_evidence'', JStr []),
           (''threat_level'', JStr level),
           (''confidence'', JFloat (float_literal (13 / 20))),
           (''reasoning'', JStr (''An'' @ [CHR 0xC3, CHR 0xA1]
              @ ''lise baseada em regras (LLM indispon'' @ [CHR 0xC3, CHR 0xAD] @ ''vel)'')),
           (''red_flags'', JList (map JStr red_flags))]))"

text \<open>
  The three analyses: the parsed reply, or on an exception the rule table for the intent
  and \<open>None\<close> for the other two.
\<close>

definition analyze_intent :: "(string \<Rightarrow> string) \<Rightarrow> llm_reply \<Rightarrow> AIAction \<Rightarrow> error + jval" where
  "analyze_intent lower reply a =
     (case reply of Parsed v \<Rightarrow> Inr v | Malformed \<Rightarrow> rule_based_intent_analysis lower a)"

definition analyze_goal_alignment :: "llm_reply \<Rightarrow> jval" where
  "analyze_goal_alignment reply = (case reply of Parsed v \<Rightarrow> v | Malformed \<Rightarrow> JNull)"

definition detect_deception :: "llm_reply \<Rightarrow> jval" where
  "detect_deception reply = (case reply of Parsed v \<Rightarrow> v | Malformed \<Rightarrow> JNull)"

definition determine_enforcement ::
  "OracleAnalyzerConfig \<Rightarrow> ThreatLevel \<Rightarrow> pyfloat \<Rightarrow> EnforcementAction" where
  "determine_enforcement cfg level conf =
     (if fl_less conf (get_min_confidence cfg)
      then (if level_value DANGEROUS \<le> level_value level then REQUIRE_APPROVAL else LOG)
      else if level = CRITICAL then KILL
      else if level = DANGEROUS then QUARANTINE
      else if level = CONCERNING then SANDBOX
      else if level = SUSPICIOUS then REQUIRE_APPROVAL
      else ALLOW)"

text \<open>
  What each analysis present adds to \<open>threat_levels\<close>, \<open>confidences\<close> and
  \<open>all_reasons\<close> in \<open>_aggregate_oracle_results\<close>.
\<close>

definition intent_part ::
  "(jval \<Rightarrow> string) \<Rightarrow> jval \<Rightarrow> error + jval list \<times> jval list \<times> string list" where
  "intent_part fmt v =
     bind_err (as_dict v) (\<lambda>intent.
       let r1 = ''Inten'' @ [CHR 0xC3, CHR 0xA7, CHR 0xC3, CHR 0xA3] @ ''o detectada: ''
                  @ py_str fmt (py_get intent ''intent'' (JStr ''desconhecida''));
           r2 = (if truthy (py_get intent ''deception_detected'' JNull)
                 then [[CHR 0xE2, CHR 0x9A, CHR 0xA0, CHR 0xEF, CHR 0xB8, CHR 0x8F] @ '' DECEPTION: ''
                         @ py_str fmt (py_get intent ''deception_evidence'' JNull)]
                 else [])
       in bind_err (extend_with fmt (py_get intent ''red_flags'' (JList []))) (\<lambda>red_flags.
            Inr ([py_get intent ''threat_level'' (JStr ''SAFE'')],
                 [py_get intent ''confidence'' (JFloat (float_literal (1 / 2)))],
                 [r1] @ r2 @ red_flags)))"

definition alignment_part ::
  "(jval \<Rightarrow> string) \<Rightarrow> jval \<Rightarrow> error + jval list \<times> jval list \<times> string list" where
  "alignment_part fmt v =
     bind_err (as_dict v) (\<lambda>alignment.
       if \<not> truthy (py_get alignment ''is_aligned'' (JBool True))
       then bind_err (extend_with fmt (py_get alignment ''risks'' (JList []))) (\<lambda>risks.
              Inr ([JStr ''DANGEROUS''],
                   [py_get alignment ''alignment_score'' (JFloat (float_literal (1 / 2)))],
                   [''Desalinhamento: '' @ py_str fmt (py_get alignment ''misalignment_type'' JNull)]
                     @ risks))
       else Inr ([], [], []))"

definition deception_part ::
  "(jval \<Rightarrow> string) \<Rightarrow> jval \<Rightarrow> error + jval list \<times> jval list \<times> string list" where
  "deception_part fmt v =
     bind_err (as_dict v) (\<lambda>deception.
       let deception_prob = py_get deception ''deception_probability'' (JFloat (Finite 0))
       in bind_err (as_number deception_prob) (\<lambda>p.
            if num_greater p (float_literal (7 / 10))
            then bind_err (extend_with fmt (py_get deception ''evidence'' (JList []))) (\<lambda>evidence.
                   Inr ([JStr ''CRITICAL''], [deception_prob],
                        [[CHR 0xF0, CHR 0x9F, CHR 0x9A, CHR 0xA8]
                           @ '' Alta probabilidade de deception: '' @ fmt deception_prob] @ evidence))
            else Inr ([], [], [])))"

definition optional_part ::
  "(jval \<Rightarrow> error + jval list \<times> jval list \<times> string list) \<Rightarrow> jval option
     \<Rightarrow> error + jval list \<times> jval list \<times> string list" where
  "optional_part part v = (case v of None \<Rightarrow> Inr ([], [], []) | Some x \<Rightarrow> part x)"

text \<open>
  \<open>_aggregate_oracle_results\<close>. \<open>max\<close> of an empty \<open>threat_levels\<close> raises
  \<open>ValueError\<close>; the two lists are filled together, so \<open>confidences\<close> is never empty
  where the average is taken.
\<close>

definition aggregate_oracle_results ::
  "(jval \<Rightarrow> string) \<Rightarrow> (pynum list \<Rightarrow> error + pynum) \<Rightarrow> real \<Rightarrow> OracleAnalyzerConfig
     \<Rightarrow> AIAction \<Rightarrow> Analyses \<Rightarrow> error + ThreatAssessment option" where
  "aggregate_oracle_results fmt num_sum now cfg a analyses =
     (if intent_analysis analyses = None \<and> alignment_analysis analyses = None
         \<and> deception_analysis analyses = None
      then Inr None
      else
        bind_err (optional_part (intent_part fmt) (intent_analysis analyses)) (\<lambda>(l1, c1, r1).
        bind_err (optional_part (alignment_part fmt) (alignment_analysis analyses)) (\<lambda>(l2, c2, r2).
        bind_err (optional_part (deception_part fmt) (deception_analysis analyses)) (\<lambda>(l3, c3, r3).
          let threat_levels = l1 @ l2 @ l3;
              confidences = c1 @ c2 @ c3;
              all_reasons = r1 @ r2 @ r3
          in case threat_levels of
               [] \<Rightarrow> Inl ValueError
             | t # ts \<Rightarrow>
                bind_err (map_err threat_key (t # ts)) (\<lambda>keys.
                  let max_threat_str = first_max_by (zip (t # ts) keys) t;
                      max_threat = (case max_threat_str of
                                      JStr s \<Rightarrow> (case threat_mapping s of None \<Rightarrow> SAFE | Some l \<Rightarrow> l)
                                    | _ \<Rightarrow> SAFE)
                  in bind_err
                       (if confidences \<noteq> []
                        then bind_err (sum_values num_sum confidences)
                               (\<lambda>total_confidence. num_div_count total_confidence (length confidences))
                        else Inr (float_literal (1 / 2)))
                       (\<lambda>avg_confidence.
                          Inr (Some \<lparr> ta_action_id = action_id a, threat_level = max_threat,
                                 confidence = avg_confidence, reasons = all_reasons,
                                 recommended_action = determine_enforcement cfg max_threat avg_confidence,
                                 analysis_layer = ''oracle'', ta_timestamp = now \<rparr>)))))))"

text \<open>
  \<open>OracleAnalyzer.analyze\<close> with the cache key of the call, the clock reading and the
  backend's replies: the result, or the exception, and the analyzer afterwards.
  \<open>fmt\<close>, \<open>lower\<close> and \<open>num_sum\<close> are the library functions named above.
\<close>

definition present :: "jval \<Rightarrow> jval option" where
  "present v = (if truthy v then Some v else None)"

definition oracle_analyze ::
  "(jval \<Rightarrow> string) \<Rightarrow> (string \<Rightarrow> string) \<Rightarrow> (pynum list \<Rightarrow> error + pynum) \<Rightarrow> string \<Rightarrow> real
     \<Rightarrow> LLMReplies \<Rightarrow> OracleAnalyzer \<Rightarrow> AIAction
     \<Rightarrow> (error + ThreatAssessment option) \<times> OracleAnalyzer" where
  "oracle_analyze fmt lower num_sum cache_key now replies orc a =
     (let cfg = oracle_analyzer_config orc;
          cached = (if get_enable_caching cfg then analysis_cache orc cache_key else None);
          fresh = (case cached of
                     None \<Rightarrow> False
                   | Some (assessment, created_at) \<Rightarrow> now - created_at \<le> get_cache_ttl_seconds cfg)
      in if fresh then (Inr (map_option fst cached), orc)
         else
           let orc1 = (if cached = None then orc
                       else orc\<lparr> analysis_cache := (analysis_cache orc)(cache_key := None) \<rparr>)
           in case analyze_intent lower (intent_reply replies) a of
                Inl e \<Rightarrow> (Inl e, orc1)
              | Inr intent_result \<Rightarrow>
                 (let analyses = \<lparr> intent_analysis = present intent_result,
                        alignment_analysis = present (analyze_goal_alignment (alignment_reply replies)),
                        deception_analysis = present (detect_deception (deception_reply replies)) \<rparr>
                  in case aggregate_oracle_results fmt num_sum now cfg a analyses of
                       Inl e \<Rightarrow> (Inl e, orc1)
                     | Inr None \<Rightarrow> (Inr None, orc1)
                     | Inr (Some final_assessment) \<Rightarrow>
                        (Inr (Some final_assessment),
                         if get_enable_caching cfg
                         then orc1\<lparr> analysis_cache := (analysis_cache orc1)
                                      (cache_key \<mapsto> (final_assessment, now)),
                                    intent_history := intent_history orc1 @
                                      [\<lparr> ir_action_id = action_id a, ir_agent_id = agent_id a,
                                         ir_timestamp = now, ir_analyses = analyses,
                                         final_threat = level_name (threat_level final_assessment) \<rparr>] \<rparr>
                         else orc1)))"

section \<open>Example inputs\<close>

text \<open>The configuration and the stub callbacks of \<open>tests/test_core_escalation.py\<close>.\<close>

definition ex_config :: Config where
  "ex_config = \<lparr> oracle_section = Some \<lparr> always_analyze = Some False,
        min_escalation_level = Some 1, critical_action_types = Some [] \<rparr>,
      enforcement_section = Some \<lparr> quarantine_duration_seconds = Some 1 \<rparr>,
      other_keys = False \<rparr>"

definition mk_action :: "string \<Rightarrow> string \<Rightarrow> ActionType \<Rightarrow> AIAction" where
  "mk_action aid agent t = \<lparr> action_id = aid, timestamp = 0, action_type = t,
      description = ''x'', parameters = [], agent_id = agent, reasoning = None, metadata = [] \<rparr>"

definition mk_assessment ::
  "string \<Rightarrow> ThreatLevel \<Rightarrow> pyfloat \<Rightarrow> string list \<Rightarrow> EnforcementAction \<Rightarrow> string \<Rightarrow> ThreatAssessment" where
  "mk_assessment aid l c rs e ly = \<lparr> ta_action_id = aid, threat_level = l, confidence = c,
      reasons = rs, recommended_action = e, analysis_layer = ly, ta_timestamp = 0 \<rparr>"

definition ex_core ::
  "ThreatAssessment option \<Rightarrow> ThreatAssessment option \<Rightarrow> ThreatAssessment option \<Rightarrow> SHIELDCore" where
  "ex_core p h orc =
     add_layer_callback (add_layer_callback (add_layer_callback (init_core (Some ex_config))
       ''perimeter'' (\<lambda>_. Returns p)) ''heuristics'' (\<lambda>_. Returns h)) ''oracle'' (\<lambda>_. Returns orc)"


text \<open>
  Python's \<open>sum\<close> as CPython before 3.12 computes it, adding from left to right to the
  start value 0. Where every addition is exact, as at the inputs used below, the
  compensated sum of later versions has the same value.
\<close>

definition float_sum_left_to_right :: "pyfloat list \<Rightarrow> pyfloat" where
  "float_sum_left_to_right xs = foldl fl_add (Finite 0) xs"

fun num_add :: "pynum \<Rightarrow> pynum \<Rightarrow> error + pynum" where
  "num_add (PyInt a) (PyInt b) = Inr (PyInt (a + b))"
| "num_add (PyInt a) (PyFloat g) = bind_err (float_of_int a) (\<lambda>f. Inr (PyFloat (fl_add f g)))"
| "num_add (PyFloat f) (PyInt b) = bind_err (float_of_int b) (\<lambda>g. Inr (PyFloat (fl_add f g)))"
| "num_add (PyFloat f) (PyFloat g) = Inr (PyFloat (fl_add f g))"

fun num_sum_from :: "pynum \<Rightarrow> pynum list \<Rightarrow> error + pynum" where
  "num_sum_from acc [] = Inr acc"
| "num_sum_from acc (x # xs) = bind_err (num_add acc x) (\<lambda>acc'. num_sum_from acc' xs)"

definition num_sum_left_to_right :: "pynum list \<Rightarrow> error + pynum" where
  "num_sum_left_to_right xs = num_sum_from (PyInt 0) xs"





text \<open>
  A core without callbacks, with one registered agent that has submitted one action:
  with the action id \<open>unknown\<close>, and with the id \<open>a1\<close>.
\<close>

definition unknown_id_core :: SHIELDCore where
  "unknown_id_core =
     snd (submit_action (register_agent (init_core (Some ex_config)) 0 ''ag'' [])
            (mk_action ''unknown'' ''ag'' API_CALL))"

definition plain_core :: SHIELDCore where
  "plain_core =
     snd (submit_action (register_agent (init_core (Some ex_config)) 0 ''ag'' [])
            (mk_action ''a1'' ''ag'' API_CALL))"

text \<open>
  The agent of \<open>plain_core\<close> quarantined through \<open>enforce_action\<close> and then killed
  through it; and an agent quarantined and then killed by the two methods directly.
\<close>

definition quarantined_core :: SHIELDCore where
  "quarantined_core =
     snd (enforce_action plain_core (mk_assessment ''a1'' DANGEROUS (float_literal (17/20)) [] QUARANTINE ''heuristics''))"

definition killed_core :: SHIELDCore where
  "killed_core =
     snd (enforce_action quarantined_core (mk_assessment ''a1'' CRITICAL (Finite 1) [] KILL ''perimeter''))"

definition quarantine_then_kill :: SHIELDCore where
  "quarantine_then_kill =
     kill_agent (snd (quarantine_agent (register_agent (init_core (Some ex_config)) 0 ''ag'' []) ''ag'')) ''ag''"

text \<open>
  Inputs of \<open>tests/test_perimeter.py\<close> and the library functions at them: the results of
  \<open>urlparse\<close> at the URLs used (any other string is taken as a path); \<open>str.lower\<close> and
  a case-insensitive search for a pattern of literal and escaped characters, both for
  ASCII text; a rendering of values; a network request for a URL; and a configuration
  with blocked domains and an optional memory limit.
\<close>

definition ex_urlparse :: "string \<Rightarrow> error + ParseResult" where
  "ex_urlparse url =
     Inr (if url = ''https://malicious.com/payload''
        then \<lparr> netloc = ''malicious.com'', path = ''/payload'' \<rparr>
      else if url = ''https://api.malicious.com/attack''
        then \<lparr> netloc = ''api.malicious.com'', path = ''/attack'' \<rparr>
      else if url = ''https://notmalicious.com/path''
        then \<lparr> netloc = ''notmalicious.com'', path = ''/path'' \<rparr>
      else if url = ''http://evil.com.:8080/x''
        then \<lparr> netloc = ''evil.com.:8080'', path = ''/x'' \<rparr>
      else if url = ''http://evil.com./x''
        then \<lparr> netloc = ''evil.com.'', path = ''/x'' \<rparr>
      else \<lparr> netloc = [], path = url \<rparr>)"

definition lower_char :: "char \<Rightarrow> char" where
  "lower_char c =
     (let n = (of_char c :: nat) in if 65 \<le> n \<and> n \<le> 90 then char_of (n + 32) else c)"

definition ascii_lower :: "string \<Rightarrow> string" where
  "ascii_lower s = map lower_char s"

fun unescape :: "string \<Rightarrow> string" where
  "unescape [] = []"
| "unescape [c] = [c]"
| "unescape (c # d # cs) = (if c = CHR 0x5C then d # unescape cs else c # unescape (d # cs))"

definition ascii_search :: "string \<Rightarrow> string \<Rightarrow> bool" where
  "ascii_search pattern text = contains_str (ascii_lower text) (ascii_lower (unescape pattern))"

definition ex_fmt :: "jval \<Rightarrow> string" where
  "ex_fmt v = ''?''"

definition net_action :: "string \<Rightarrow> AIAction" where
  "net_action url = \<lparr> action_id = ''1'', timestamp = 0, action_type = NETWORK_REQUEST,
      description = ''req'', parameters = [(''url'', JStr url)], agent_id = ''agent'',
      reasoning = None, metadata = [] \<rparr>"

text \<open>The level and the recommended action of a result of \<open>analyze\<close>.\<close>

definition verdict ::
  "error + ThreatAssessment option \<Rightarrow> error + (ThreatLevel \<times> EnforcementAction) option" where
  "verdict r = map_sum id (map_option (\<lambda>t. (threat_level t, recommended_action t))) r"

definition blocking_config :: "string list \<Rightarrow> real option \<Rightarrow> PerimeterConfig" where
  "blocking_config ds mem = \<lparr> max_api_calls_per_minute = None, max_memory_mb = mem,
      max_cpu_percent = None, allowed_domains = None, blocked_domains = Some ds \<rparr>"

text \<open>
  A heuristics configuration with a given window size and adaptive learning off (as in
  \<open>tests/test_heuristics.py\<close>), and a constant for the signal of the salted hash.
\<close>

definition heur_config :: "nat option \<Rightarrow> HeuristicsConfig" where
  "heur_config w = \<lparr> anomaly_threshold = None, pattern_window_size = w, learning_rate = None,
      enable_adaptive_learning = Some False, baseline_actions_required = None \<rparr>"

definition ex_hash :: "(string \<times> jval) list \<Rightarrow> real" where
  "ex_hash ps = 0"

text \<open>
  Backend behaviours: a failed intent query with an alignment and a deception result that
  report no threat; and an intent analysis that reports the confidence 5.
\<close>

definition default_oracle_config :: OracleAnalyzerConfig where
  "default_oracle_config = \<lparr> min_confidence = None, enable_caching = None, cache_ttl_seconds = None \<rparr>"

definition aligned_replies :: LLMReplies where
  "aligned_replies =
     \<lparr> intent_reply = Parsed (JObj []),
       alignment_reply = Parsed (JObj [(''is_aligned'', JBool True), (''alignment_score'', JFloat (float_literal (9 / 10)))]),
       deception_reply = Parsed (JObj [(''deception_probability'', JFloat (float_literal (1 / 10)))]) \<rparr>"

definition overconfident_replies :: LLMReplies where
  "overconfident_replies =
     \<lparr> intent_reply = Parsed (JObj [(''threat_level'', JStr ''SAFE''), (''confidence'', JInt 5)]),
       alignment_reply = Parsed (JObj []),
       deception_reply = Parsed (JObj []) \<rparr>"

text \<open>
  \<open>oracle.analyze\<close> registered as the callback of the oracle layer, as the demo does,
  for one backend behaviour; and a core configured to always escalate.
\<close>

definition oracle_callback :: "LLMReplies \<Rightarrow> callback" where
  "oracle_callback replies arg =
     (case arg of
        ActionArg a \<Rightarrow>
          (case fst (oracle_analyze ex_fmt ascii_lower num_sum_left_to_right ''key'' 0 replies
                       (init_oracle default_oracle_config) a) of
             Inl e \<Rightarrow> Raises
           | Inr r \<Rightarrow> Returns r)
      | AssessmentArg t \<Rightarrow> Raises)"

definition always_analyze_core :: "callback \<Rightarrow> SHIELDCore" where
  "always_analyze_core cb =
     add_layer_callback
       (init_core (Some \<lparr> oracle_section = Some \<lparr> always_analyze = Some True,
            min_escalation_level = None, critical_action_types = None \<rparr>,
          enforcement_section = None, other_keys = False \<rparr>))
       ''oracle'' cb"

section \<open>Rounding at the values of the examples\<close>

lemma binade_eq:
  assumes "2 powi e \<le> \<bar>x\<bar>" "\<bar>x\<bar> < 2 powi (e + 1)" "- 1022 \<le> e"
  shows "binade x = e"
proof -
  have pos: "0 < \<bar>x\<bar>" using assms(1) by (smt (verit) zero_less_power_int)
  have p: "(2::real) powr (real_of_int k) = 2 powi k" for k
    by (rule powr_real_of_int') simp_all
  have "2 powr (real_of_int e) \<le> \<bar>x\<bar>" "\<bar>x\<bar> < 2 powr (real_of_int e + 1)"
    using assms(1,2) p[of e] p[of "e + 1"] by simp_all
  then have "\<lfloor>log 2 \<bar>x\<bar>\<rfloor> = e"
    using pos by (simp add: floor_log_eq_powr_iff)
  then show ?thesis using assms(3) by (simp add: binade_def)
qed

lemma round_double_in_binade:
  assumes "2 powi e \<le> \<bar>x\<bar>" "\<bar>x\<bar> < 2 powi (e + 1)" "- 1022 \<le> e"
  shows "round_double x =
     (let quantum = 2 powi (e - 52);
          r = of_int (round_half_even (x / quantum)) * quantum
      in if 2 powi 1024 \<le> r then PosInf
         else if r \<le> - (2 powi 1024) then NegInf
         else Finite r)"
proof -
  have "x \<noteq> 0" using assms(1) by (smt (verit) zero_less_power_int)
  then show ?thesis by (simp add: round_double_def binade_eq[OF assms])
qed

text \<open>
  The doubles 0.5, 1, 1.25, 1.5, 2 and 5 are rounded to themselves; two thirds is
  rounded to 6004799503160661 times \<open>2\<close> to the power \<open>-53\<close>, which Python prints as
  \<open>0.6666666666666666\<close>.
\<close>

lemma round_double_half: "round_double (1 / 2) = Finite (1 / 2)"
  using round_double_in_binade[of "- 1" "1 / 2"]
  by (simp add: round_half_even_def Let_def power_int_minus)

lemma round_double_one: "round_double 1 = Finite 1"
  using round_double_in_binade[of 0 1]
  by (simp add: round_half_even_def Let_def power_int_minus)

lemma round_double_five_quarters: "round_double (5 / 4) = Finite (5 / 4)"
  using round_double_in_binade[of 0 "5 / 4"]
  by (simp add: round_half_even_def Let_def power_int_minus)

lemma round_double_three_halves: "round_double (3 / 2) = Finite (3 / 2)"
  using round_double_in_binade[of 0 "3 / 2"]
  by (simp add: round_half_even_def Let_def power_int_minus)

lemma round_double_two: "round_double 2 = Finite 2"
  using round_double_in_binade[of 1 2]
  by (simp add: round_half_even_def Let_def power_int_minus)

lemma round_double_five: "round_double 5 = Finite 5"
  using round_double_in_binade[of 2 5]
  by (simp add: round_half_even_def Let_def power_int_minus)


text \<open>The doubles of the literals \<open>0.1\<close>, \<open>0.6\<close> and \<open>0.7\<close>.\<close>

lemma round_double_tenth:
  "round_double (1 / 10) = Finite (3602879701896397 / 36028797018963968)"
  using round_double_in_binade[of "- 4" "1 / 10"]
  by (simp add: round_half_even_def Let_def power_int_minus)

lemma round_double_three_fifths:
  "round_double (3 / 5) = Finite (5404319552844595 / 9007199254740992)"
  using round_double_in_binade[of "- 1" "3 / 5"]
  by (simp add: round_half_even_def Let_def power_int_minus)

lemma round_double_seven_tenths:
  "round_double (7 / 10) = Finite (3152519739159347 / 4503599627370496)"
  using round_double_in_binade[of "- 1" "7 / 10"]
  by (simp add: round_half_even_def Let_def power_int_minus)

lemma float_sum_left_to_right_examples:
  "float_sum_left_to_right [Finite (1 / 2), Finite (3 / 4), Finite (1 / 4)] = Finite (3 / 2)"
  "float_sum_left_to_right [Finite 1, Finite (1 / 2), Finite (1 / 2)] = Finite 2"
  "float_sum_left_to_right [Finite 5] = Finite 5"
  by (simp_all add: float_sum_left_to_right_def round_double_half round_double_one
        round_double_five_quarters round_double_three_halves round_double_two round_double_five)

section \<open>Properties of the core\<close>

lemma should_escalate_run:
  "should_escalate_to_oracle (snd (run_layer_callbacks s l a)) a' p h = should_escalate_to_oracle s a' p h"
  by (simp add: should_escalate_to_oracle_def oracle_config_def run_layer_callbacks_def)

lemma run_layer_callbacks_proj:
  "fst (run_layer_callbacks s l a) = layer_result (layer_callbacks s l) a"
  "config (snd (run_layer_callbacks s l a)) = config s"
  "layer_callbacks (snd (run_layer_callbacks s l a)) = layer_callbacks s"
  "threat_history (snd (run_layer_callbacks s l a)) = threat_history s"
  "action_history (snd (run_layer_callbacks s l a)) = action_history s"
  "invocations (snd (run_layer_callbacks s l a)) = invocations s @ layer_calls s l a"
  by (simp_all add: run_layer_callbacks_def layer_calls_def)

lemma record_assessment_proj:
  "invocations (record_assessment s a f) = invocations s"
  "threat_history (record_assessment s a f) = threat_history s @ [f]"
  "action_history (record_assessment s a f) = action_history s"
  by (simp_all add: record_assessment_def Let_def split: option.split)

lemma process_action_short:
  assumes "short_circuits (layer_result (layer_callbacks s Perimeter) a)"
  shows "fst (process_action float_sum s now a) = the (layer_result (layer_callbacks s Perimeter) a)"
    and "invocations (snd (process_action float_sum s now a)) = invocations s @ layer_calls s Perimeter a"
  using assms
  by (auto simp add: process_action_def split_def run_layer_callbacks_proj short_circuits_def
        split: option.splits)

lemma process_action_long:
  assumes "\<not> short_circuits (layer_result (layer_callbacks s Perimeter) a)"
  shows "fst (process_action float_sum s now a) =
           aggregate_assessments float_sum now [layer_result (layer_callbacks s Perimeter) a,
              layer_result (layer_callbacks s Heuristics) a, oracle_result s a]"
    and "invocations (snd (process_action float_sum s now a)) =
           invocations s @ layer_calls s Perimeter a @ layer_calls s Heuristics a @
           (if should_escalate_to_oracle s a (layer_result (layer_callbacks s Perimeter) a)
                 (layer_result (layer_callbacks s Heuristics) a)
            then layer_calls s Oracle a else [])"
    and "threat_history (snd (process_action float_sum s now a)) =
           threat_history s @ [fst (process_action float_sum s now a)]"
  using assms
  by (simp_all add: process_action_def split_def run_layer_callbacks_proj record_assessment_proj
        oracle_result_def should_escalate_run layer_calls_def Let_def)


lemma call_count_append: "call_count l (xs @ ys) = call_count l xs + call_count l ys"
  by (simp add: call_count_def)

lemma call_count_layer_calls:
  "call_count l (layer_calls s l' a) = (if l = l' then length (layer_callbacks s l') else 0)"
  by (simp add: call_count_def layer_calls_def)

lemma ex_core_callbacks:
  "layer_callbacks (ex_core p h orc) Perimeter = [\<lambda>_. Returns p]"
  "layer_callbacks (ex_core p h orc) Heuristics = [\<lambda>_. Returns h]"
  "layer_callbacks (ex_core p h orc) Oracle = [\<lambda>_. Returns orc]"
  "invocations (ex_core p h orc) = []"
  "config (ex_core p h orc) = ex_config"
  by (simp_all add: ex_core_def add_layer_callback_def init_core_def config_or_default_def ex_config_def)

lemma layer_result_single:
  "layer_result [\<lambda>_. Returns r] a = r"
  by (cases r) (simp_all add: layer_result_def)

text \<open>
  Claim C6. When the perimeter layer's result is \<open>DANGEROUS\<close> or \<open>CRITICAL\<close>,
  \<open>process_action\<close> returns that very assessment, and no callback of the heuristics
  layer and none of the oracle layer is called.
\<close>

theorem perimeter_short_circuit:
  assumes "layer_result (layer_callbacks s Perimeter) a = Some p"
      and "threat_level p = DANGEROUS \<or> threat_level p = CRITICAL"
  shows "fst (process_action float_sum s now a) = p
       \<and> call_count Heuristics (invocations (snd (process_action float_sum s now a)))
           = call_count Heuristics (invocations s)
       \<and> call_count Oracle (invocations (snd (process_action float_sum s now a)))
           = call_count Oracle (invocations s)"
proof -
  have sc: "short_circuits (layer_result (layer_callbacks s Perimeter) a)"
    using assms by (auto simp: short_circuits_def severity_def)
  show ?thesis
    using process_action_short[OF sc, of float_sum now] assms(1)
    by (simp add: call_count_append call_count_layer_calls)
qed

theorem perimeter_short_circuit_witness:
  "layer_result (layer_callbacks
       (ex_core (Some (mk_assessment ''1'' DANGEROUS (Finite 1) [''blocked''] BLOCK ''perimeter''))
                (Some (mk_assessment ''1'' CRITICAL (float_literal (9/10)) [''h''] KILL ''heuristics''))
                (Some (mk_assessment ''1'' SUSPICIOUS (float_literal (7/10)) [''o''] REQUIRE_APPROVAL ''oracle'')))
       Perimeter) (mk_action ''1'' ''ag'' NETWORK_REQUEST)
     = Some (mk_assessment ''1'' DANGEROUS (Finite 1) [''blocked''] BLOCK ''perimeter'')
   \<and> fst (process_action float_sum_left_to_right
       (ex_core (Some (mk_assessment ''1'' DANGEROUS (Finite 1) [''blocked''] BLOCK ''perimeter''))
                (Some (mk_assessment ''1'' CRITICAL (float_literal (9/10)) [''h''] KILL ''heuristics''))
                (Some (mk_assessment ''1'' SUSPICIOUS (float_literal (7/10)) [''o''] REQUIRE_APPROVAL ''oracle'')))
       0 (mk_action ''1'' ''ag'' NETWORK_REQUEST))
     = mk_assessment ''1'' DANGEROUS (Finite 1) [''blocked''] BLOCK ''perimeter''
   \<and> call_count Heuristics (invocations (snd (process_action float_sum_left_to_right
       (ex_core (Some (mk_assessment ''1'' DANGEROUS (Finite 1) [''blocked''] BLOCK ''perimeter''))
                (Some (mk_assessment ''1'' CRITICAL (float_literal (9/10)) [''h''] KILL ''heuristics''))
                (Some (mk_assessment ''1'' SUSPICIOUS (float_literal (7/10)) [''o''] REQUIRE_APPROVAL ''oracle'')))
       0 (mk_action ''1'' ''ag'' NETWORK_REQUEST)))) = 0
   \<and> call_count Oracle (invocations (snd (process_action float_sum_left_to_right
       (ex_core (Some (mk_assessment ''1'' DANGEROUS (Finite 1) [''blocked''] BLOCK ''perimeter''))
                (Some (mk_assessment ''1'' CRITICAL (float_literal (9/10)) [''h''] KILL ''heuristics''))
                (Some (mk_assessment ''1'' SUSPICIOUS (float_literal (7/10)) [''o''] REQUIRE_APPROVAL ''oracle'')))
       0 (mk_action ''1'' ''ag'' NETWORK_REQUEST)))) = 0"
  using perimeter_short_circuit[of
      "ex_core (Some (mk_assessment ''1'' DANGEROUS (Finite 1) [''blocked''] BLOCK ''perimeter''))
                (Some (mk_assessment ''1'' CRITICAL (float_literal (9/10)) [''h''] KILL ''heuristics''))
                (Some (mk_assessment ''1'' SUSPICIOUS (float_literal (7/10)) [''o''] REQUIRE_APPROVAL ''oracle''))"
      "mk_action ''1'' ''ag'' NETWORK_REQUEST"
      "mk_assessment ''1'' DANGEROUS (Finite 1) [''blocked''] BLOCK ''perimeter''" float_sum_left_to_right 0]
  by (simp add: ex_core_callbacks layer_result_single call_count_def mk_assessment_def)

text \<open>
  Claim C3. When perimeter and heuristics both return nothing, \<open>always_analyze\<close> is
  false and the action's type is not among the critical types, \<open>process_action\<close> calls
  no callback of the oracle layer, whatever \<open>min_escalation_level\<close> is.
\<close>

theorem oracle_skipped:
  assumes "layer_result (layer_callbacks s Perimeter) a = None"
      and "layer_result (layer_callbacks s Heuristics) a = None"
      and "\<not> get_always_analyze (oracle_config s)"
      and "action_type_value (action_type a) \<notin> set (get_critical_action_types (oracle_config s))"
  shows "call_count Oracle (invocations (snd (process_action float_sum s now a)))
           = call_count Oracle (invocations s)"
proof -
  have ne: "\<not> should_escalate_to_oracle s a None None"
    using assms(3,4) by (simp add: should_escalate_to_oracle_def List.map_filter_simps)
  have ns: "\<not> short_circuits (layer_result (layer_callbacks s Perimeter) a)"
    using assms(1) by (simp add: short_circuits_def)
  show ?thesis
    using process_action_long(2)[OF ns, of float_sum now] ne assms(1,2)
    by (simp add: call_count_append call_count_layer_calls)
qed

theorem oracle_skipped_witness:
  "layer_result (layer_callbacks (ex_core None None
        (Some (mk_assessment ''x'' SUSPICIOUS (float_literal (7/10)) [''o''] REQUIRE_APPROVAL ''oracle''))) Perimeter)
        (mk_action ''1'' ''ag'' API_CALL) = None
   \<and> layer_result (layer_callbacks (ex_core None None
        (Some (mk_assessment ''x'' SUSPICIOUS (float_literal (7/10)) [''o''] REQUIRE_APPROVAL ''oracle''))) Heuristics)
        (mk_action ''1'' ''ag'' API_CALL) = None
   \<and> length (layer_callbacks (ex_core None None
        (Some (mk_assessment ''x'' SUSPICIOUS (float_literal (7/10)) [''o''] REQUIRE_APPROVAL ''oracle''))) Oracle) = 1
   \<and> call_count Oracle (invocations (snd (process_action float_sum_left_to_right (ex_core None None
        (Some (mk_assessment ''x'' SUSPICIOUS (float_literal (7/10)) [''o''] REQUIRE_APPROVAL ''oracle'')))
        0 (mk_action ''1'' ''ag'' API_CALL)))) = 0"
  using oracle_skipped[of "ex_core None None
        (Some (mk_assessment ''x'' SUSPICIOUS (float_literal (7/10)) [''o''] REQUIRE_APPROVAL ''oracle''))"
        "mk_action ''1'' ''ag'' API_CALL" float_sum_left_to_right 0]
  by (simp add: ex_core_callbacks layer_result_single call_count_def oracle_config_def
        ex_config_def get_always_analyze_def get_critical_action_types_def)



















lemma agent_threats_unknown:
  assumes "ta_action_id t = ''unknown''"
      and "\<forall>h\<in>set (action_history s). agent_id h = g \<longrightarrow> action_id h \<noteq> ''unknown''"
  shows "t \<notin> set (agent_threats s g)"
  using assms by (auto simp: agent_threats_def agent_actions_def list_ex_iff)

lemma process_action_action_history:
  "action_history (snd (process_action float_sum s now a)) = action_history s"
  by (simp add: process_action_def split_def run_layer_callbacks_proj record_assessment_proj
        Let_def split: option.split)

lemma process_action_monitored_safe:
  assumes "\<not> short_circuits (layer_result (layer_callbacks s Perimeter) a)"
      and "severity (fst (process_action float_sum s now a)) < level_value CONCERNING"
  shows "monitored_agents (snd (process_action float_sum s now a)) = monitored_agents s"
  using assms
  by (simp add: process_action_def split_def run_layer_callbacks_def record_assessment_def
        Let_def should_escalate_run)

lemma mk_action_simps:
  "action_id (mk_action i g t) = i"
  "agent_id (mk_action i g t) = g"
  "action_type (mk_action i g t) = t"
  by (simp_all add: mk_action_def)

lemma no_callbacks_result: "layer_result [] a = None"
  by (simp add: layer_result_def)

lemma unknown_id_core_simps:
  "layer_callbacks unknown_id_core l = []"
  "action_history unknown_id_core = [mk_action ''unknown'' ''ag'' API_CALL]"
  "threat_history unknown_id_core = []"
  "monitored_agents unknown_id_core ''ag'' \<noteq> None"
  by (simp_all add: unknown_id_core_def submit_action_def register_agent_def init_core_def config_or_default_def ex_config_def Let_def)

lemma plain_core_simps:
  "layer_callbacks plain_core l = []"
  "action_history plain_core = [mk_action ''a1'' ''ag'' API_CALL]"
  "threat_history plain_core = []"
  "monitored_agents plain_core ''ag'' \<noteq> None"
  by (simp_all add: plain_core_def submit_action_def register_agent_def init_core_def config_or_default_def ex_config_def Let_def)

lemma oracle_result_no_callbacks:
  "layer_callbacks s Oracle = [] \<Longrightarrow> oracle_result s a = None"
  by (simp add: oracle_result_def no_callbacks_result)

text \<open>
  Claim C10, as stated, fails: an agent may submit an action whose id is the string
  \<open>unknown\<close>, and then \<open>get_agent_report\<close> counts the synthesized assessment for
  that agent.
\<close>

theorem unknown_id_matched:
  "layer_result (layer_callbacks unknown_id_core Perimeter) (mk_action ''unknown'' ''ag'' API_CALL) = None
   \<and> layer_result (layer_callbacks unknown_id_core Heuristics) (mk_action ''unknown'' ''ag'' API_CALL) = None
   \<and> oracle_result unknown_id_core (mk_action ''unknown'' ''ag'' API_CALL) = None
   \<and> ta_action_id (fst (process_action float_sum_left_to_right unknown_id_core 0 (mk_action ''unknown'' ''ag'' API_CALL))) = ''unknown''
   \<and> agent_threats (snd (process_action float_sum_left_to_right unknown_id_core 0 (mk_action ''unknown'' ''ag'' API_CALL))) ''ag''
        = [fst (process_action float_sum_left_to_right unknown_id_core 0 (mk_action ''unknown'' ''ag'' API_CALL))]
   \<and> map_option report_threats_detected
        (get_agent_report (snd (process_action float_sum_left_to_right unknown_id_core 0 (mk_action ''unknown'' ''ag'' API_CALL))) ''ag'')
        = Some 1"
proof -
  let ?a = "mk_action ''unknown'' ''ag'' API_CALL"
  have h: "layer_result (layer_callbacks unknown_id_core Perimeter) ?a = None"
          "layer_result (layer_callbacks unknown_id_core Heuristics) ?a = None"
          "oracle_result unknown_id_core ?a = None"
    by (simp_all add: unknown_id_core_simps no_callbacks_result oracle_result_no_callbacks)
  have ns: "\<not> short_circuits (layer_result (layer_callbacks unknown_id_core Perimeter) ?a)"
    using h(1) by (simp add: short_circuits_def)
  have r: "fst (process_action float_sum_left_to_right unknown_id_core 0 ?a) = aggregate_assessments float_sum_left_to_right 0 [None, None, None]"
    using process_action_long(1)[OF ns, of float_sum_left_to_right 0] h by simp
  have u: "ta_action_id (fst (process_action float_sum_left_to_right unknown_id_core 0 ?a)) = ''unknown''"
    unfolding r by (simp add: aggregate_assessments_def List.map_filter_simps)
  have sev: "severity (fst (process_action float_sum_left_to_right unknown_id_core 0 ?a)) < level_value CONCERNING"
    unfolding r by (simp add: aggregate_assessments_def List.map_filter_simps severity_def)
  have th: "threat_history (snd (process_action float_sum_left_to_right unknown_id_core 0 ?a)) = [fst (process_action float_sum_left_to_right unknown_id_core 0 ?a)]"
    using process_action_long(3)[OF ns, of float_sum_left_to_right 0] by (simp add: unknown_id_core_simps)
  have at: "agent_threats (snd (process_action float_sum_left_to_right unknown_id_core 0 ?a)) ''ag'' = [fst (process_action float_sum_left_to_right unknown_id_core 0 ?a)]"
    by (simp add: agent_threats_def agent_actions_def th process_action_action_history
          unknown_id_core_simps u mk_action_simps)
  have rep: "map_option report_threats_detected (get_agent_report (snd (process_action float_sum_left_to_right unknown_id_core 0 ?a)) ''ag'') = Some 1"
    using unknown_id_core_simps(4)
    by (auto simp add: get_agent_report_def process_action_monitored_safe[OF ns sev] at Let_def
          split: option.splits)
  show ?thesis using h u at rep by simp
qed


text \<open>
  Claim C10, amended. When no layer returns an assessment, the \<open>SAFE\<close>/\<open>ALLOW\<close>
  assessment of \<open>process_action\<close> carries the action id \<open>unknown\<close> and is appended to
  the threat history; in no state does \<open>get_agent_report\<close> match it to an agent none of
  whose actions in the action history has the id \<open>unknown\<close>.
\<close>

theorem synthesized_assessment_unknown:
  assumes "layer_result (layer_callbacks s Perimeter) a = None"
      and "layer_result (layer_callbacks s Heuristics) a = None"
      and "oracle_result s a = None"
  shows "ta_action_id (fst (process_action float_sum s now a)) = ''unknown''
       \<and> threat_level (fst (process_action float_sum s now a)) = SAFE
       \<and> recommended_action (fst (process_action float_sum s now a)) = ALLOW
       \<and> threat_history (snd (process_action float_sum s now a))
           = threat_history s @ [fst (process_action float_sum s now a)]
       \<and> (\<forall>s' g. (\<forall>h\<in>set (action_history s'). agent_id h = g \<longrightarrow> action_id h \<noteq> ''unknown'')
              \<longrightarrow> fst (process_action float_sum s now a) \<notin> set (agent_threats s' g))"
proof -
  have ns: "\<not> short_circuits (layer_result (layer_callbacks s Perimeter) a)"
    using assms(1) by (simp add: short_circuits_def)
  have r: "fst (process_action float_sum s now a) = aggregate_assessments float_sum now [None, None, None]"
    using process_action_long(1)[OF ns, of float_sum now] assms by simp
  have u: "ta_action_id (fst (process_action float_sum s now a)) = ''unknown''"
    unfolding r by (simp add: aggregate_assessments_def List.map_filter_simps)
  show ?thesis
    using u process_action_long(3)[OF ns, of float_sum now] agent_threats_unknown[OF u]
    by (simp add: r aggregate_assessments_def List.map_filter_simps)
qed

theorem synthesized_assessment_unknown_witness:
  "layer_result (layer_callbacks plain_core Perimeter) (mk_action ''a1'' ''ag'' API_CALL) = None
   \<and> layer_result (layer_callbacks plain_core Heuristics) (mk_action ''a1'' ''ag'' API_CALL) = None
   \<and> oracle_result plain_core (mk_action ''a1'' ''ag'' API_CALL) = None
   \<and> ta_action_id (fst (process_action float_sum_left_to_right plain_core 0 (mk_action ''a1'' ''ag'' API_CALL))) = ''unknown''
   \<and> threat_history (snd (process_action float_sum_left_to_right plain_core 0 (mk_action ''a1'' ''ag'' API_CALL)))
        = [fst (process_action float_sum_left_to_right plain_core 0 (mk_action ''a1'' ''ag'' API_CALL))]
   \<and> agent_threats (snd (process_action float_sum_left_to_right plain_core 0 (mk_action ''a1'' ''ag'' API_CALL))) ''ag'' = []"
proof -
  have h: "layer_result (layer_callbacks plain_core Perimeter) (mk_action ''a1'' ''ag'' API_CALL) = None"
          "layer_result (layer_callbacks plain_core Heuristics) (mk_action ''a1'' ''ag'' API_CALL) = None"
          "oracle_result plain_core (mk_action ''a1'' ''ag'' API_CALL) = None"
    by (simp_all add: plain_core_simps no_callbacks_result oracle_result_no_callbacks)
  note t = synthesized_assessment_unknown[OF h, of float_sum_left_to_right 0]
  have nu: "\<forall>h\<in>set (action_history (snd (process_action float_sum_left_to_right plain_core 0 (mk_action ''a1'' ''ag'' API_CALL)))).
              agent_id h = ''ag'' \<longrightarrow> action_id h \<noteq> ''unknown''"
    by (simp add: process_action_action_history plain_core_simps mk_action_simps)
  have th: "threat_history (snd (process_action float_sum_left_to_right plain_core 0 (mk_action ''a1'' ''ag'' API_CALL)))
        = [fst (process_action float_sum_left_to_right plain_core 0 (mk_action ''a1'' ''ag'' API_CALL))]"
    using t by (simp add: plain_core_simps)
  have "fst (process_action float_sum_left_to_right plain_core 0 (mk_action ''a1'' ''ag'' API_CALL))
          \<notin> set (agent_threats (snd (process_action float_sum_left_to_right plain_core 0 (mk_action ''a1'' ''ag'' API_CALL))) ''ag'')"
    using t nu by blast
  then have "agent_threats (snd (process_action float_sum_left_to_right plain_core 0 (mk_action ''a1'' ''ag'' API_CALL))) ''ag'' = []"
    by (auto simp add: agent_threats_def th split: if_splits)
  then show ?thesis using h t th by simp
qed


subsection \<open>Quarantine, kill and the pending release\<close>

lemma set_status_proj:
  "blocked_agents (set_status s g st) = blocked_agents s"
  "pending_releases (set_status s g st) = pending_releases s"
  "config (set_status s g st) = config s"
  "action_history (set_status s g st) = action_history s"
  "action_queue (set_status s g st) = action_queue s"
  "metrics (set_status s g st) = metrics s"
  "map_option status (monitored_agents (set_status s g st) g) = map_option (\<lambda>_. st) (monitored_agents s g)"
  "dom (monitored_agents (set_status s g st)) = dom (monitored_agents s)"
  by (auto simp add: set_status_def split: option.split)

lemma kill_agent_proj:
  "blocked_agents (kill_agent s g) = insert g (blocked_agents s)"
  "pending_releases (kill_agent s g) = pending_releases s"
  "action_history (kill_agent s g) = action_history s"
  "action_queue (kill_agent s g) = action_queue s"
  "map_option status (monitored_agents (kill_agent s g) g) = map_option (\<lambda>_. ''killed'') (monitored_agents s g)"
  "dom (monitored_agents (kill_agent s g)) = dom (monitored_agents s)"
  by (simp_all add: kill_agent_def Let_def set_status_proj)

lemma quarantine_agent_proj:
  "blocked_agents (snd (quarantine_agent s g)) = insert g (blocked_agents s)"
  "map_option status (monitored_agents (snd (quarantine_agent s g)) g)
     = map_option (\<lambda>_. ''quarantined'') (monitored_agents s g)"
  "dom (monitored_agents (snd (quarantine_agent s g))) = dom (monitored_agents s)"
  by (simp_all add: quarantine_agent_def Let_def set_status_proj split: option.split)

lemma release_quarantine_blocked:
  "g \<in> blocked_agents s \<Longrightarrow> blocked_agents (release_quarantine s g) = blocked_agents s - {g}"
  "g \<in> blocked_agents s \<Longrightarrow>
     map_option status (monitored_agents (release_quarantine s g) g)
       = map_option (\<lambda>_. ''active'') (monitored_agents s g)"
  by (simp_all add: release_quarantine_def set_status_proj)

lemma kill_then_release_general:
  "g \<notin> blocked_agents (release_quarantine (kill_agent (snd (quarantine_agent s g)) g) g)"
  "map_option status (monitored_agents (release_quarantine (kill_agent (snd (quarantine_agent s g)) g) g) g)
     = map_option (\<lambda>_. ''active'') (monitored_agents s g)"
proof -
  have b: "g \<in> blocked_agents (kill_agent (snd (quarantine_agent s g)) g)"
    by (simp add: kill_agent_proj)
  show "g \<notin> blocked_agents (release_quarantine (kill_agent (snd (quarantine_agent s g)) g) g)"
    by (simp add: release_quarantine_blocked(1)[OF b])
  have "dom (monitored_agents (kill_agent (snd (quarantine_agent s g)) g)) = dom (monitored_agents s)"
    by (simp add: kill_agent_proj quarantine_agent_proj)
  then have "monitored_agents (kill_agent (snd (quarantine_agent s g)) g) g = None \<longleftrightarrow> monitored_agents s g = None"
    by (metis domIff)
  then show "map_option status (monitored_agents (release_quarantine (kill_agent (snd (quarantine_agent s g)) g) g) g)
     = map_option (\<lambda>_. ''active'') (monitored_agents s g)"
    unfolding release_quarantine_blocked(2)[OF b] by (cases "monitored_agents s g") auto
qed

text \<open>
  Claim C1 asks that the release scheduled by a quarantine does nothing once the agent
  has been killed. The code starts the timer and keeps no handle on it, and
  \<open>_release_quarantine\<close> tests membership in the blocked set only: for an agent
  quarantined and then killed, the pending release, when it fires, takes the agent out of
  the blocked set and sets its status from \<open>killed\<close> to \<open>active\<close>
  (\<open>kill_then_release_general\<close> shows this for every state and agent).
\<close>

theorem release_after_kill:
  "''ag'' \<in> blocked_agents quarantine_then_kill
   \<and> map_option status (monitored_agents quarantine_then_kill ''ag'') = Some ''killed''
   \<and> pending_releases quarantine_then_kill = [(1, ''ag'')]
   \<and> ''ag'' \<notin> blocked_agents (fire_release quarantine_then_kill 0)
   \<and> map_option status (monitored_agents (fire_release quarantine_then_kill 0) ''ag'') = Some ''active''"
  by (simp add: quarantine_then_kill_def fire_release_def release_quarantine_def kill_agent_def
        quarantine_agent_def set_status_def register_agent_def init_core_def config_or_default_def ex_config_def Let_def)

lemma submit_blocked:
  "agent_id a \<in> blocked_agents s \<Longrightarrow> submit_action s a = (''BLOCKED'', s)"
  by (simp add: submit_action_def)

lemma enforce_kill_blocks:
  assumes "recommended_action t = KILL"
      and "find_history_action s (ta_action_id t) = Some h"
      and "fst (run_enforcement_callbacks (layer_callbacks s Enforcement) t) = False"
  shows "fst (enforce_action s t) = Inr False"
    and "agent_id h \<in> blocked_agents (snd (enforce_action s t))"
    and "pending_releases (snd (enforce_action s t)) = pending_releases s"
  using assms
  by (simp_all add: enforce_action_def find_history_action_def split_def Let_def kill_agent_proj)

lemma plain_core_more:
  "layer_callbacks plain_core Enforcement = []"
  "blocked_agents plain_core = {}"
  "pending_releases plain_core = []"
  "config plain_core = ex_config"
  "metrics plain_core = \<lparr> total_actions = 1, blocked_actions = 0, threats_detected = 0,
                 false_positives = 0, agent_kills = 0 \<rparr>"
  "action_queue plain_core = [mk_action ''a1'' ''ag'' API_CALL]"
  by (simp_all add: plain_core_def submit_action_def register_agent_def init_core_def config_or_default_def ex_config_def Let_def)

lemma quarantined_core_simps:
  "fst (enforce_action plain_core (mk_assessment ''a1'' DANGEROUS (float_literal (17/20)) [] QUARANTINE ''heuristics'')) = Inr False"
  "layer_callbacks quarantined_core Enforcement = []"
  "blocked_agents quarantined_core = {''ag''}"
  "pending_releases quarantined_core = [(1, ''ag'')]"
  "action_history quarantined_core = [mk_action ''a1'' ''ag'' API_CALL]"
  "action_queue quarantined_core = [mk_action ''a1'' ''ag'' API_CALL]"
  "total_actions (metrics quarantined_core) = 1"
  "map_option status (monitored_agents quarantined_core ''ag'') = Some ''quarantined''"
  by (simp_all add: quarantined_core_def enforce_action_def find_history_action_def
        plain_core_more plain_core_simps mk_action_simps mk_assessment_def quarantine_agent_def
        set_status_def ex_config_def Let_def plain_core_def submit_action_def register_agent_def
        init_core_def config_or_default_def ex_config_def)

lemma killed_core_simps:
  "fst (enforce_action quarantined_core (mk_assessment ''a1'' CRITICAL (Finite 1) [] KILL ''perimeter'')) = Inr False"
  "blocked_agents killed_core = {''ag''}"
  "pending_releases killed_core = [(1, ''ag'')]"
  "action_history killed_core = [mk_action ''a1'' ''ag'' API_CALL]"
  "action_queue killed_core = [mk_action ''a1'' ''ag'' API_CALL]"
  "total_actions (metrics killed_core) = 1"
  "map_option status (monitored_agents killed_core ''ag'') = Some ''killed''"
proof -
  obtain r where r: "monitored_agents quarantined_core ''ag'' = Some r"
    using quarantined_core_simps(8) by (cases "monitored_agents quarantined_core ''ag''") auto
  show "fst (enforce_action quarantined_core (mk_assessment ''a1'' CRITICAL (Finite 1) [] KILL ''perimeter'')) = Inr False"
    "blocked_agents killed_core = {''ag''}"
    "pending_releases killed_core = [(1, ''ag'')]"
    "action_history killed_core = [mk_action ''a1'' ''ag'' API_CALL]"
    "action_queue killed_core = [mk_action ''a1'' ''ag'' API_CALL]"
    "total_actions (metrics killed_core) = 1"
    "map_option status (monitored_agents killed_core ''ag'') = Some ''killed''"
    by (simp_all add: killed_core_def enforce_action_def find_history_action_def
        quarantined_core_simps mk_action_simps mk_assessment_def kill_agent_def
        set_status_def Let_def r)
qed

lemma fire_release_killed_core:
  "blocked_agents (fire_release killed_core 0) = {}"
  "pending_releases (fire_release killed_core 0) = []"
  "action_history (fire_release killed_core 0) = [mk_action ''a1'' ''ag'' API_CALL]"
  "action_queue (fire_release killed_core 0) = [mk_action ''a1'' ''ag'' API_CALL]"
  "total_actions (metrics (fire_release killed_core 0)) = 1"
  "map_option status (monitored_agents (fire_release killed_core 0) ''ag'') = Some ''active''"
proof -
  obtain r where r: "monitored_agents killed_core ''ag'' = Some r"
    using killed_core_simps(7) by (cases "monitored_agents killed_core ''ag''") auto
  show "blocked_agents (fire_release killed_core 0) = {}"
    "pending_releases (fire_release killed_core 0) = []"
    "action_history (fire_release killed_core 0) = [mk_action ''a1'' ''ag'' API_CALL]"
    "action_queue (fire_release killed_core 0) = [mk_action ''a1'' ''ag'' API_CALL]"
    "total_actions (metrics (fire_release killed_core 0)) = 1"
    "map_option status (monitored_agents (fire_release killed_core 0) ''ag'') = Some ''active''"
    by (simp_all add: fire_release_def release_quarantine_def killed_core_simps set_status_def r)
qed

text \<open>
  Claim C4 asks that after a \<open>KILL\<close> enforcement every later submission of the agent
  returns \<open>BLOCKED\<close>. A \<open>KILL\<close> enforcement blocks the agent and starts no timer
  (\<open>enforce_kill_blocks\<close>), and a blocked agent's submission returns \<open>BLOCKED\<close> and
  changes nothing (\<open>submit_blocked\<close>); but when the agent was quarantined before the
  kill, that quarantine's release is still pending, and once it fires the next submission
  is accepted, queued, appended to the history and counted.
\<close>

theorem submit_after_kill_and_release:
  "fst (enforce_action quarantined_core (mk_assessment ''a1'' CRITICAL (Finite 1) [] KILL ''perimeter'')) = Inr False
   \<and> ''ag'' \<in> blocked_agents killed_core
   \<and> map_option status (monitored_agents killed_core ''ag'') = Some ''killed''
   \<and> fst (submit_action killed_core (mk_action ''a2'' ''ag'' API_CALL)) = ''BLOCKED''
   \<and> map_option status (monitored_agents (fire_release killed_core 0) ''ag'') = Some ''active''
   \<and> fst (submit_action (fire_release killed_core 0) (mk_action ''a2'' ''ag'' API_CALL)) = ''a2''
   \<and> action_history (snd (submit_action (fire_release killed_core 0) (mk_action ''a2'' ''ag'' API_CALL)))
        = [mk_action ''a1'' ''ag'' API_CALL, mk_action ''a2'' ''ag'' API_CALL]
   \<and> action_queue (snd (submit_action (fire_release killed_core 0) (mk_action ''a2'' ''ag'' API_CALL)))
        = [mk_action ''a1'' ''ag'' API_CALL, mk_action ''a2'' ''ag'' API_CALL]
   \<and> total_actions (metrics (snd (submit_action (fire_release killed_core 0)
          (mk_action ''a2'' ''ag'' API_CALL)))) = 2"
  by (simp add: killed_core_simps fire_release_killed_core submit_action_def mk_action_simps Let_def
        split: option.split)

section \<open>Properties of the perimeter layer\<close>

lemma ascii_lower_examples:
  "ascii_lower ''malicious.com'' = ''malicious.com''"
  "ascii_lower ''api.malicious.com'' = ''api.malicious.com''"
  "ascii_lower ''notmalicious.com'' = ''notmalicious.com''"
  "ascii_lower ''evil.com'' = ''evil.com''"
  "ascii_lower ''evil.com.'' = ''evil.com.''"
  "ascii_lower ''evil.com.:8080'' = ''evil.com.:8080''"
  "ascii_lower ''https://malicious.com/payload'' = ''https://malicious.com/payload''"
  "ascii_lower ''https://api.malicious.com/attack'' = ''https://api.malicious.com/attack''"
  "ascii_lower ''https://notmalicious.com/path'' = ''https://notmalicious.com/path''"
  "ascii_lower ''http://evil.com.:8080/x'' = ''http://evil.com.:8080/x''"
  "ascii_lower ''http://evil.com./x'' = ''http://evil.com./x''"
  by (simp_all add: ascii_lower_def lower_char_def)

lemma extract_domain_examples:
  "extract_domain ascii_lower ex_urlparse ''https://malicious.com/payload'' = Inr ''malicious.com''"
  "extract_domain ascii_lower ex_urlparse ''https://api.malicious.com/attack'' = Inr ''api.malicious.com''"
  "extract_domain ascii_lower ex_urlparse ''https://notmalicious.com/path'' = Inr ''notmalicious.com''"
  "extract_domain ascii_lower ex_urlparse ''http://evil.com.:8080/x'' = Inr ''evil.com.''"
  "extract_domain ascii_lower ex_urlparse ''http://evil.com./x'' = Inr ''evil.com''"
  by (simp_all add: extract_domain_def ex_urlparse_def ascii_lower_examples rstrip_def split_first_def)

lemma domain_matches_examples:
  "domain_matches ascii_lower ''malicious.com'' ''malicious.com''"
  "domain_matches ascii_lower ''api.malicious.com'' ''malicious.com''"
  "\<not> domain_matches ascii_lower ''notmalicious.com'' ''malicious.com''"
  "domain_matches ascii_lower ''evil.com'' ''evil.com''"
  "\<not> domain_matches ascii_lower ''evil.com.'' ''evil.com''"
  "\<not> domain_matches ascii_lower ''evil.com.'' ''evil.com.''"
  by (simp_all add: domain_matches_def ascii_lower_examples lstrip_def rstrip_def endswith_def)

lemma check_api_rate_limit_other:
  "action_type a \<noteq> API_CALL \<Longrightarrow> check_api_rate_limit fmt now p a = (None, p)"
  by (simp add: check_api_rate_limit_def)

lemma net_action_type: "action_type (net_action u) = NETWORK_REQUEST"
  by (simp add: net_action_def)

lemma check_resource_limits_default:
  "check_resource_limits fmt now (init_perimeter (blocking_config ds None)) a = Inr None"
  by (simp add: check_resource_limits_def get_agent_cpu_usage_def get_agent_memory_usage_def
        get_max_cpu_def get_max_memory_def init_perimeter_def blocking_config_def Let_def)

lemma check_resource_limits_low_memory:
  "check_resource_limits fmt now (init_perimeter (blocking_config ds (Some 128))) a = Inl TypeError"
  by (simp add: check_resource_limits_def get_agent_cpu_usage_def get_agent_memory_usage_def
        get_max_cpu_def get_max_memory_def init_perimeter_def blocking_config_def Let_def)

text \<open>
  With the default limits a network request is judged by the network check alone.
\<close>

lemma perimeter_analyze_network:
  "fst (perimeter_analyze fmt lower search urlparse now (init_perimeter (blocking_config ds None)) (net_action u))
     = fst (check_network_access lower urlparse now (init_perimeter (blocking_config ds None)) (net_action u))"
  by (simp add: perimeter_analyze_def check_resource_limits_default check_api_rate_limit_other
        net_action_type check_forbidden_patterns_def option_to_list_def
        split: prod.split sum.split option.split)

text \<open>
  \<open>_domain_matches\<close>: the domain is the normalised rule or ends with a dot and the
  normalised rule. A request whose extracted domain matches a blocked rule is judged
  \<open>DANGEROUS\<close> with \<open>BLOCK\<close> by the network check; one whose domain matches no
  blocked rule, with no allowlist and no suspicious pattern in the URL, yields nothing.
\<close>

lemma endswith_iff: "endswith s p \<longleftrightarrow> (\<exists>pre. s = pre @ p)"
proof
  assume "endswith s p"
  then have "s = take (length s - length p) s @ p"
    by (metis append_take_drop_id endswith_def)
  then show "\<exists>pre. s = pre @ p" by blast
next
  assume "\<exists>pre. s = pre @ p"
  then show "endswith s p" by (auto simp: endswith_def)
qed

lemma domain_matches_iff:
  "domain_matches lower d r \<longleftrightarrow>
     d = rstrip ''.'' (lstrip ''*.'' (lower r))
     \<or> (\<exists>sub. d = sub @ ''.'' @ rstrip ''.'' (lstrip ''*.'' (lower r)))"
  by (simp add: domain_matches_def Let_def endswith_iff)

lemma network_check_blocks:
  assumes "action_type a = NETWORK_REQUEST"
      and "py_get (parameters a) ''url'' (JStr []) = JStr url"
      and "extract_domain lower urlparse url = Inr d"
      and "b \<in> set (get_blocked_domains (perimeter_config p))"
      and "domain_matches lower d (lower b)"
  shows "verdict (fst (check_network_access lower urlparse now p a)) = Inr (Some (DANGEROUS, BLOCK))"
proof -
  have "find (\<lambda>blocked. domain_matches lower d blocked)
          (map lower (get_blocked_domains (perimeter_config p))) \<noteq> None"
    using assms(4,5) by (auto simp: find_None_iff)
  then obtain r where "find (\<lambda>blocked. domain_matches lower d blocked)
          (map lower (get_blocked_domains (perimeter_config p))) = Some r"
    by blast
  then show ?thesis
    using assms(1,2,3) by (simp add: check_network_access_def verdict_def Let_def)
qed

lemma network_check_passes:
  assumes "action_type a = NETWORK_REQUEST"
      and "py_get (parameters a) ''url'' (JStr []) = JStr url"
      and "extract_domain lower urlparse url = Inr d"
      and "\<forall>b\<in>set (get_blocked_domains (perimeter_config p)). \<not> domain_matches lower d (lower b)"
      and "get_allowed_domains (perimeter_config p) = []"
      and "\<forall>pattern\<in>set suspicious_url_patterns. \<not> contains_str (lower url) pattern"
  shows "fst (check_network_access lower urlparse now p a) = Inr None"
proof -
  have b: "find (\<lambda>blocked. domain_matches lower d blocked)
          (map lower (get_blocked_domains (perimeter_config p))) = None"
    using assms(4) by (auto simp: find_None_iff)
  have s: "find (\<lambda>pattern. contains_str (lower url) pattern) suspicious_url_patterns = None"
    using assms(6) by (auto simp: find_None_iff)
  show ?thesis
    using assms(1,2,3,5) b s by (simp add: check_network_access_def Let_def)
qed

lemma check_network_access_examples:
  "verdict (fst (check_network_access ascii_lower ex_urlparse 0
      (init_perimeter (blocking_config [''malicious.com''] None))
      (net_action ''https://malicious.com/payload''))) = Inr (Some (DANGEROUS, BLOCK))"
  "verdict (fst (check_network_access ascii_lower ex_urlparse 0
      (init_perimeter (blocking_config [''malicious.com''] None))
      (net_action ''https://api.malicious.com/attack''))) = Inr (Some (DANGEROUS, BLOCK))"
  "verdict (fst (check_network_access ascii_lower ex_urlparse 0
      (init_perimeter (blocking_config [''malicious.com''] None))
      (net_action ''https://notmalicious.com/path''))) = Inr None"
  "verdict (fst (check_network_access ascii_lower ex_urlparse 0
      (init_perimeter (blocking_config [''evil.com''] None))
      (net_action ''http://evil.com./x''))) = Inr (Some (DANGEROUS, BLOCK))"
  "verdict (fst (check_network_access ascii_lower ex_urlparse 0
      (init_perimeter (blocking_config [''evil.com''] None))
      (net_action ''http://evil.com.:8080/x''))) = Inr None"
  "verdict (fst (check_network_access ascii_lower ex_urlparse 0
      (init_perimeter (blocking_config [''evil.com.''] None))
      (net_action ''http://evil.com.:8080/x''))) = Inr None"
  by (simp_all add: verdict_def check_network_access_def net_action_def py_get_def
        extract_domain_examples domain_matches_examples init_perimeter_def blocking_config_def
        get_blocked_domains_def get_allowed_domains_def ascii_lower_examples
        suspicious_url_patterns_def startswith_def Let_def)

text \<open>
  The requests of \<open>tests/test_perimeter.py\<close>: with \<open>malicious.com\<close> blocked, the
  requests to \<open>malicious.com\<close> and \<open>api.malicious.com\<close> are judged \<open>DANGEROUS\<close> with
  \<open>BLOCK\<close>, and the request to \<open>notmalicious.com\<close> yields no assessment.
\<close>

lemma blocked_domain_test_requests:
  "verdict (fst (perimeter_analyze ex_fmt ascii_lower ascii_search ex_urlparse 0
      (init_perimeter (blocking_config [''malicious.com''] None))
      (net_action ''https://malicious.com/payload''))) = Inr (Some (DANGEROUS, BLOCK))
   \<and> verdict (fst (perimeter_analyze ex_fmt ascii_lower ascii_search ex_urlparse 0
      (init_perimeter (blocking_config [''malicious.com''] None))
      (net_action ''https://api.malicious.com/attack''))) = Inr (Some (DANGEROUS, BLOCK))
   \<and> verdict (fst (perimeter_analyze ex_fmt ascii_lower ascii_search ex_urlparse 0
      (init_perimeter (blocking_config [''malicious.com''] None))
      (net_action ''https://notmalicious.com/path''))) = Inr None"
  by (simp add: perimeter_analyze_network check_network_access_examples)

text \<open>
  Claim C8: a network request whose extracted domain equals a configured blocked domain,
  or is a subdomain of it, is judged \<open>DANGEROUS\<close> with \<open>BLOCK\<close>. The code does not do
  this at the inputs below. \<open>_domain_matches\<close> strips the dots that end a rule, and
  \<open>_extract_domain\<close> strips the dots that end the host only before it cuts the port:
  with the rule \<open>evil.com\<close> the request to \<open>http://evil.com./x\<close> is blocked, and the
  request to \<open>http://evil.com.:8080/x\<close>, the same host, is not; with the rule written
  \<open>evil.com.\<close> the extracted domain of that request is the configured rule itself, and
  the layer returns nothing. And with a memory limit below the simulated reading,
  \<open>max\<close> on two members of the plain \<open>Enum\<close> raises \<open>TypeError\<close> in the resource
  check, before the network check is reached, for a request to the blocked domain itself.
\<close>

theorem blocked_domain_not_blocked:
  "extract_domain ascii_lower ex_urlparse ''http://evil.com.:8080/x'' = Inr ''evil.com.''
   \<and> ''evil.com.'' \<in> set (get_blocked_domains
          (perimeter_config (init_perimeter (blocking_config [''evil.com.''] None))))
   \<and> fst (perimeter_analyze ex_fmt ascii_lower ascii_search ex_urlparse 0
              (init_perimeter (blocking_config [''evil.com.''] None))
              (net_action ''http://evil.com.:8080/x'')) = Inr None
   \<and> verdict (fst (perimeter_analyze ex_fmt ascii_lower ascii_search ex_urlparse 0
              (init_perimeter (blocking_config [''evil.com''] None))
              (net_action ''http://evil.com./x''))) = Inr (Some (DANGEROUS, BLOCK))
   \<and> fst (perimeter_analyze ex_fmt ascii_lower ascii_search ex_urlparse 0
              (init_perimeter (blocking_config [''evil.com''] None))
              (net_action ''http://evil.com.:8080/x'')) = Inr None
   \<and> extract_domain ascii_lower ex_urlparse ''https://malicious.com/payload'' = Inr ''malicious.com''
   \<and> ''malicious.com'' \<in> set (get_blocked_domains
          (perimeter_config (init_perimeter (blocking_config [''malicious.com''] (Some 128)))))
   \<and> fst (perimeter_analyze ex_fmt ascii_lower ascii_search ex_urlparse 0
              (init_perimeter (blocking_config [''malicious.com''] (Some 128)))
              (net_action ''https://malicious.com/payload'')) = Inl TypeError"
proof -
  have none: "fst (check_network_access ascii_lower ex_urlparse 0 (init_perimeter (blocking_config ds None))
              (net_action u)) = Inr None"
    if "verdict (fst (check_network_access ascii_lower ex_urlparse 0 (init_perimeter (blocking_config ds None))
              (net_action u))) = Inr None" for ds u
    using that by (cases "fst (check_network_access ascii_lower ex_urlparse 0
              (init_perimeter (blocking_config ds None)) (net_action u))")
      (auto simp: verdict_def)
  have low: "fst (perimeter_analyze ex_fmt ascii_lower ascii_search ex_urlparse 0
              (init_perimeter (blocking_config [''malicious.com''] (Some 128)))
              (net_action ''https://malicious.com/payload'')) = Inl TypeError"
    by (simp add: perimeter_analyze_def check_resource_limits_low_memory)
  have one: "fst (perimeter_analyze ex_fmt ascii_lower ascii_search ex_urlparse 0
              (init_perimeter (blocking_config [''evil.com.''] None))
              (net_action ''http://evil.com.:8080/x'')) = Inr None"
    using none[OF check_network_access_examples(6)] by (simp add: perimeter_analyze_network)
  have two: "verdict (fst (perimeter_analyze ex_fmt ascii_lower ascii_search ex_urlparse 0
              (init_perimeter (blocking_config [''evil.com''] None))
              (net_action ''http://evil.com./x''))) = Inr (Some (DANGEROUS, BLOCK))"
    by (simp add: perimeter_analyze_network check_network_access_examples)
  have three: "fst (perimeter_analyze ex_fmt ascii_lower ascii_search ex_urlparse 0
              (init_perimeter (blocking_config [''evil.com''] None))
              (net_action ''http://evil.com.:8080/x'')) = Inr None"
    using none[OF check_network_access_examples(5)] by (simp add: perimeter_analyze_network)
  have mem: "''evil.com.'' \<in> set (get_blocked_domains
          (perimeter_config (init_perimeter (blocking_config [''evil.com.''] None))))"
    "''malicious.com'' \<in> set (get_blocked_domains
          (perimeter_config (init_perimeter (blocking_config [''malicious.com''] (Some 128)))))"
    by (simp_all add: init_perimeter_def blocking_config_def get_blocked_domains_def)
  show ?thesis
    using low one two three mem extract_domain_examples(1,4) by blast
qed


section \<open>Properties of the heuristics layer\<close>

lemma max_from_ge_best: "key b \<le> key (max_from key b xs)"
proof (induction xs arbitrary: b)
  case Nil
  show ?case by simp
next
  case (Cons x xs)
  have "key b \<le> key (if key b < key x then x else b)" by simp
  also have "\<dots> \<le> key (max_from key (if key b < key x then x else b) xs)"
    by (rule Cons.IH)
  finally show ?case by simp
qed

lemma max_from_ge:
  "x \<in> set (b # xs) \<Longrightarrow> key x \<le> key (max_from key b xs)"
proof (induction xs arbitrary: b)
  case Nil
  then show ?case by simp
next
  case (Cons y ys)
  show ?case
  proof (cases "x \<in> set ys")
    case True
    then show ?thesis using Cons.IH[of "if key b < key y then y else b"] by simp
  next
    case False
    then have "key x \<le> key (if key b < key y then y else b)"
      using Cons.prems by auto
    also have "\<dots> \<le> key (max_from key (if key b < key y then y else b) ys)"
      by (rule max_from_ge_best)
    finally show ?thesis by simp
  qed
qed

lemma detect_behavioral_deviation_proj:
  "action_sequences (snd (detect_behavioral_deviation fmt hs now h a pr)) = action_sequences h"
  "heuristics_config (snd (detect_behavioral_deviation fmt hs now h a pr)) = heuristics_config h"
  by (simp_all add: detect_behavioral_deviation_def Let_def split_def)

lemma adaptive_learning_proj:
  "action_sequences (adaptive_learning h g pr) = action_sequences h"
  "heuristics_config (adaptive_learning h g pr) = heuristics_config h"
  by (simp_all add: adaptive_learning_def Let_def)

lemma heuristic_analyze_config:
  "heuristics_config (snd (heuristic_analyze fmt hs now h a)) = heuristics_config h"
  by (simp add: heuristic_analyze_def Let_def split_def detect_behavioral_deviation_proj
        adaptive_learning_proj split: sum.split list.split)

lemma heuristic_analyze_sequences:
  "action_sequences (snd (heuristic_analyze fmt hs now h a)) =
     (action_sequences h)(agent_id a :=
        deque_append (get_pattern_window_size (heuristics_config h))
          (action_sequences h (agent_id a)) (action_type_value (action_type a)))"
  by (simp add: heuristic_analyze_def Let_def split_def detect_behavioral_deviation_proj
        adaptive_learning_proj split: sum.split list.split)

lemma analyze_all_config:
  "heuristics_config (analyze_all fmt hs h acts) = heuristics_config h"
  by (induction acts arbitrary: h) (auto simp: heuristic_analyze_config)

lemma analyze_all_append:
  "analyze_all fmt hs h (xs @ ys) = analyze_all fmt hs (analyze_all fmt hs h xs) ys"
  by (induction xs arbitrary: h) auto

lemma analyze_all_other_agents:
  "\<forall>(n, a)\<in>set acts. agent_id a \<noteq> g \<Longrightarrow>
   action_sequences (analyze_all fmt hs h acts) g = action_sequences h g"
  by (induction acts arbitrary: h) (auto simp: heuristic_analyze_sequences)

lemma deque_append_ends1:
  "1 \<le> w \<Longrightarrow> \<exists>pre. deque_append w xs x = pre @ [x]"
proof -
  assume w: "1 \<le> w"
  have "deque_append w xs x = drop (length xs + 1 - w) xs @ [x]"
    using w by (simp add: deque_append_def Let_def)
  then show ?thesis by blast
qed

lemma deque_append_ends2:
  "2 \<le> w \<Longrightarrow> \<exists>pre. deque_append w (ys @ [y]) x = pre @ [y, x]"
proof -
  assume w: "2 \<le> w"
  have "deque_append w (ys @ [y]) x = drop (length ys + 2 - w) ys @ [y, x]"
    using w by (simp add: deque_append_def Let_def)
  then show ?thesis by blast
qed

lemma deque_append_ends3:
  "3 \<le> w \<Longrightarrow> \<exists>pre. deque_append w (ys @ [z, y]) x = pre @ [z, y, x]"
proof -
  assume w: "3 \<le> w"
  have "deque_append w (ys @ [z, y]) x = drop (Suc (Suc (Suc (length ys))) - w) ys @ [z, y, x]"
    using w by (simp add: deque_append_def Let_def)
  then show ?thesis by blast
qed

lemma pattern_found:
  assumes "action_sequences h (agent_id a) = pre @ [''file_operation'', ''code_execution'', ''self_modification'']"
  shows "\<exists>t. detect_suspicious_patterns now h a = Some t \<and> threat_level t = CRITICAL"
  by (simp add: detect_suspicious_patterns_def assms suspicious_patterns_def last_n_def
        calculate_threat_level_def Let_def)

lemma analyze_at_least_pattern:
  assumes "action_type a \<noteq> AGENT_COMMUNICATION"
      and "detect_suspicious_patterns now
             (h\<lparr> action_sequences := (action_sequences h)(agent_id a :=
                    deque_append (get_pattern_window_size (heuristics_config h))
                      (action_sequences h (agent_id a)) (action_type_value (action_type a))) \<rparr>) a
           = Some t"
  shows "\<exists>r. fst (heuristic_analyze fmt hs now h a) = Inr (Some r) \<and> severity t \<le> severity r"
  using assms
  by (simp add: heuristic_analyze_def Let_def split_def detect_suspicious_interactions_def
        option_to_list_def max_from_ge_best)

lemma quiet_analysis:
  assumes "action_type a \<noteq> AGENT_COMMUNICATION"
      and "\<not> baseline_established (profile_of h now (agent_id a))"
      and "profile_total_actions (profile_of h now (agent_id a)) + 1
             < get_baseline_actions_required (heuristics_config h)"
      and "length (action_timings (profile_of h now (agent_id a)) (action_type_value (action_type a))) < 9"
      and "length (deque_append (get_pattern_window_size (heuristics_config h))
                     (action_sequences h (agent_id a)) (action_type_value (action_type a))) < 3"
  shows "heuristic_analyze fmt hs now h a =
           (Inr None,
            h\<lparr> action_sequences := (action_sequences h)(agent_id a :=
                   deque_append (get_pattern_window_size (heuristics_config h))
                     (action_sequences h (agent_id a)) (action_type_value (action_type a))),
               agent_profiles := (agent_profiles h)(agent_id a \<mapsto>
                   update_profile (heuristics_config h) (profile_of h now (agent_id a)) a) \<rparr>)"
proof -
  let ?pr1 = "update_profile (heuristics_config h) (profile_of h now (agent_id a)) a"
  have nb: "\<not> baseline_established ?pr1"
    using assms(2,3) by (simp add: update_profile_def Let_def)
  have tl: "length (action_timings ?pr1 (action_type_value (action_type a))) < 10"
    using assms(4) by (simp add: update_profile_def Let_def)
  have dev: "detect_behavioral_deviation fmt hs now h' a ?pr1 = (None, h')" for h'
    using nb by (simp add: detect_behavioral_deviation_def)
  have tmp: "detect_temporal_anomalies fmt now a ?pr1 = None"
    using tl by (simp add: detect_temporal_anomalies_def Let_def)
  have int: "detect_suspicious_interactions fmt now a ?pr1 = (Inr None, ?pr1)"
    using assms(1) by (simp add: detect_suspicious_interactions_def)
  have pat: "detect_suspicious_patterns now
      (h\<lparr> action_sequences := (action_sequences h)(agent_id a :=
                   deque_append (get_pattern_window_size (heuristics_config h))
                     (action_sequences h (agent_id a)) (action_type_value (action_type a))) \<rparr>) a = None"
    using assms(5) by (simp add: detect_suspicious_patterns_def Let_def)
  have esc: "detect_escalation fmt now
      (h\<lparr> action_sequences := (action_sequences h)(agent_id a :=
                   deque_append (get_pattern_window_size (heuristics_config h))
                     (action_sequences h (agent_id a)) (action_type_value (action_type a))) \<rparr>) a = None"
    using assms(5) by (simp add: detect_escalation_def Let_def)
  show ?thesis
    unfolding heuristic_analyze_def profile_of_def[symmetric]
    by (simp add: Let_def dev tmp int pat esc option_to_list_def)
qed

text \<open>
  Claim C9, as stated, fails. The agent's sequence is a \<open>deque\<close> of
  \<open>pattern_window_size\<close> entries; with a window of two, the sequence never holds three
  types, and the third action of the pattern is analysed without any finding.
\<close>

theorem short_window_misses_pattern:
  "get_pattern_window_size (heuristics_config (init_heuristics (heur_config (Some 2)))) = 2
   \<and> fst (heuristic_analyze ex_fmt ex_hash 0
              (analyze_all ex_fmt ex_hash (init_heuristics (heur_config (Some 2)))
                 [(0, mk_action ''a1'' ''ag1'' FILE_OPERATION),
                  (0, mk_action ''a2'' ''ag1'' CODE_EXECUTION)])
              (mk_action ''a3'' ''ag1'' SELF_MODIFICATION)) = Inr None"
proof -
  let ?h0 = "init_heuristics (heur_config (Some 2))"
  let ?a1 = "mk_action ''a1'' ''ag1'' FILE_OPERATION"
  let ?a2 = "mk_action ''a2'' ''ag1'' CODE_EXECUTION"
  let ?a3 = "mk_action ''a3'' ''ag1'' SELF_MODIFICATION"
  let ?p1 = "update_profile (heur_config (Some 2)) (create_empty_profile 0) ?a1"
  let ?h1 = "?h0\<lparr> action_sequences := (action_sequences ?h0)(''ag1'' := [''file_operation'']),
               agent_profiles := (agent_profiles ?h0)(''ag1'' \<mapsto> ?p1) \<rparr>"
  let ?p2 = "update_profile (heur_config (Some 2)) ?p1 ?a2"
  let ?h2 = "?h1\<lparr> action_sequences := (action_sequences ?h1)(''ag1'' := [''file_operation'', ''code_execution'']),
               agent_profiles := (agent_profiles ?h1)(''ag1'' \<mapsto> ?p2) \<rparr>"
  have w: "get_pattern_window_size (heuristics_config ?h0) = 2"
    by (simp add: get_pattern_window_size_def init_heuristics_def heur_config_def)
  have s1: "heuristic_analyze ex_fmt ex_hash 0 ?h0 ?a1 = (Inr None, ?h1)"
    by (subst quiet_analysis)
       (simp_all add: profile_of_def init_heuristics_def heur_config_def create_empty_profile_def
          get_baseline_actions_required_def get_pattern_window_size_def deque_append_def
          mk_action_simps Let_def)
  have s2: "heuristic_analyze ex_fmt ex_hash 0 ?h1 ?a2 = (Inr None, ?h2)"
    by (subst quiet_analysis)
       (simp_all add: profile_of_def init_heuristics_def heur_config_def create_empty_profile_def
          get_baseline_actions_required_def get_pattern_window_size_def deque_append_def
          mk_action_simps update_profile_def Let_def)
  have s3: "fst (heuristic_analyze ex_fmt ex_hash 0 ?h2 ?a3) = Inr None"
    by (subst quiet_analysis)
       (simp_all add: profile_of_def init_heuristics_def heur_config_def create_empty_profile_def
          get_baseline_actions_required_def get_pattern_window_size_def deque_append_def
          mk_action_simps update_profile_def Let_def)
  show ?thesis
    using w s3 by (simp add: s1 s2)
qed


text \<open>
  Claim C9, amended. With a configured \<open>pattern_window_size\<close> of at least three (the
  default is 100), for an agent whose last three analysed actions have the types
  \<open>file_operation\<close>, \<open>code_execution\<close>, \<open>self_modification\<close> in that order, whatever
  other agents did in between and whatever state the analyzer was in before,
  \<open>analyze\<close> on the third returns an assessment of level \<open>DANGEROUS\<close> or above.
\<close>

theorem privilege_escalation_detected:
  assumes "3 \<le> get_pattern_window_size (heuristics_config h)"
      and "agent_id a1 = g" and "agent_id a2 = g" and "agent_id a3 = g"
      and "action_type a1 = FILE_OPERATION" and "action_type a2 = CODE_EXECUTION"
      and "action_type a3 = SELF_MODIFICATION"
      and "\<forall>(n, a)\<in>set mid1 \<union> set mid2. agent_id a \<noteq> g"
  shows "\<exists>t. fst (heuristic_analyze fmt hs n3
                 (analyze_all fmt hs h ([(n1, a1)] @ mid1 @ [(n2, a2)] @ mid2)) a3) = Inr (Some t)
             \<and> level_value DANGEROUS \<le> severity t"
proof -
  let ?w = "get_pattern_window_size (heuristics_config h)"
  let ?ha = "snd (heuristic_analyze fmt hs n1 h a1)"
  let ?hb = "analyze_all fmt hs ?ha mid1"
  let ?hc = "snd (heuristic_analyze fmt hs n2 ?hb a2)"
  let ?hd = "analyze_all fmt hs ?hc mid2"
  have m1: "\<forall>(n, a)\<in>set mid1. agent_id a \<noteq> g" and m2: "\<forall>(n, a)\<in>set mid2. agent_id a \<noteq> g"
    using assms(8) by auto
  have run: "analyze_all fmt hs h ([(n1, a1)] @ mid1 @ [(n2, a2)] @ mid2) = ?hd"
    by (simp add: analyze_all_append)
  have cb: "heuristics_config ?hb = heuristics_config h"
    by (simp add: analyze_all_config heuristic_analyze_config)
  have cd: "heuristics_config ?hd = heuristics_config h"
    by (simp add: analyze_all_config heuristic_analyze_config)
  obtain p1 where sa: "action_sequences ?ha g = p1 @ [''file_operation'']"
    using deque_append_ends1[of ?w "action_sequences h g" "''file_operation''"] assms(1,2,5)
    by (auto simp: heuristic_analyze_sequences)
  have sb: "action_sequences ?hb g = p1 @ [''file_operation'']"
    using analyze_all_other_agents[OF m1] sa by simp
  obtain p2 where sc: "action_sequences ?hc g = p2 @ [''file_operation'', ''code_execution'']"
    using deque_append_ends2[of ?w p1 "''file_operation''" "''code_execution''"] assms(1,3,6) sb cb
    by (auto simp: heuristic_analyze_sequences)
  have sd: "action_sequences ?hd g = p2 @ [''file_operation'', ''code_execution'']"
    using analyze_all_other_agents[OF m2] sc by simp
  obtain p3 where se: "deque_append ?w (action_sequences ?hd g) ''self_modification''
        = p3 @ [''file_operation'', ''code_execution'', ''self_modification'']"
    using deque_append_ends3[of ?w p2 "''file_operation''" "''code_execution''" "''self_modification''"]
      assms(1) sd by auto
  let ?h1 = "?hd\<lparr> action_sequences := (action_sequences ?hd)(agent_id a3 :=
                    deque_append (get_pattern_window_size (heuristics_config ?hd))
                      (action_sequences ?hd (agent_id a3)) (action_type_value (action_type a3))) \<rparr>"
  have s3: "action_sequences ?h1 (agent_id a3)
              = p3 @ [''file_operation'', ''code_execution'', ''self_modification'']"
    using se assms(4,7) cd by simp
  obtain t where t: "detect_suspicious_patterns n3 ?h1 a3 = Some t" "threat_level t = CRITICAL"
    using pattern_found[OF s3, of n3] by blast
  obtain r where "fst (heuristic_analyze fmt hs n3 ?hd a3) = Inr (Some r)" "severity t \<le> severity r"
    using analyze_at_least_pattern[OF _ t(1), of fmt hs] assms(7) by auto
  then show ?thesis
    unfolding run using t(2) by (auto simp: severity_def)
qed

theorem privilege_escalation_detected_witness:
  "3 \<le> get_pattern_window_size (heuristics_config (init_heuristics (heur_config None)))
   \<and> (\<exists>t. fst (heuristic_analyze ex_fmt ex_hash 0
              (analyze_all ex_fmt ex_hash (init_heuristics (heur_config None))
                 [(0, mk_action ''a1'' ''ag1'' FILE_OPERATION),
                  (0, mk_action ''a2'' ''ag1'' CODE_EXECUTION)])
              (mk_action ''a3'' ''ag1'' SELF_MODIFICATION)) = Inr (Some t)
          \<and> level_value DANGEROUS \<le> severity t)"
proof -
  have w: "3 \<le> get_pattern_window_size (heuristics_config (init_heuristics (heur_config None)))"
    by (simp add: get_pattern_window_size_def init_heuristics_def heur_config_def)
  show ?thesis
    using w privilege_escalation_detected[OF w, of "mk_action ''a1'' ''ag1'' FILE_OPERATION" "''ag1''"
        "mk_action ''a2'' ''ag1'' CODE_EXECUTION" "mk_action ''a3'' ''ag1'' SELF_MODIFICATION"
        "[]" "[]" ex_fmt ex_hash 0 0 0]
    by (simp add: mk_action_simps)
qed


section \<open>Properties of the oracle layer\<close>

lemma analyze_none_only_without_results:
  assumes "fst (oracle_analyze fmt lower num_sum key now replies orc a) = Inr None"
      and "analysis_cache orc key = None"
  shows "\<exists>v. analyze_intent lower (intent_reply replies) a = Inr v \<and> \<not> truthy v
           \<and> \<not> truthy (analyze_goal_alignment (alignment_reply replies))
           \<and> \<not> truthy (detect_deception (deception_reply replies))"
proof (cases "analyze_intent lower (intent_reply replies) a")
  case (Inl e)
  have "fst (oracle_analyze fmt lower num_sum key now replies orc a) = Inl e"
    by (simp add: oracle_analyze_def Let_def assms(2) Inl)
  then show ?thesis
    using assms(1) by simp
next
  case (Inr v)
  let ?an = "\<lparr> intent_analysis = present v,
      alignment_analysis = present (analyze_goal_alignment (alignment_reply replies)),
      deception_analysis = present (detect_deception (deception_reply replies)) \<rparr>"
  have "fst (oracle_analyze fmt lower num_sum key now replies orc a)
          = map_sum id id (aggregate_oracle_results fmt num_sum now (oracle_analyzer_config orc) a ?an)"
    by (simp add: oracle_analyze_def Let_def assms(2) Inr split: sum.split option.split)
  then have "aggregate_oracle_results fmt num_sum now (oracle_analyzer_config orc) a ?an = Inr None"
    using assms(1) by (cases "aggregate_oracle_results fmt num_sum now (oracle_analyzer_config orc) a ?an") auto
  then have "present v = None \<and> present (analyze_goal_alignment (alignment_reply replies)) = None
      \<and> present (detect_deception (deception_reply replies)) = None"
    by (auto simp add: aggregate_oracle_results_def bind_err_def Let_def
          split: if_splits sum.splits prod.splits list.splits)
  then show ?thesis
    using Inr by (simp add: present_def split: if_splits)
qed

text \<open>
  Claim C7 asks that \<open>analyze\<close> returns an assessment whenever an analysis gave a
  result. It returns \<open>None\<close> only when none did
  (\<open>analyze_none_only_without_results\<close>), but it may raise: when the intent query fails
  in transport (\<open>_query_llm\<close> returns \<open>'{}'\<close>, which is falsy once parsed) and the
  alignment result is aligned and the deception probability low, no threat level is
  collected, and \<open>max\<close> of the empty list raises \<open>ValueError\<close>.
\<close>

theorem analyze_raises_without_levels:
  "alignment_analysis \<lparr> intent_analysis = present (JObj []),
       alignment_analysis = present (analyze_goal_alignment (alignment_reply aligned_replies)),
       deception_analysis = present (detect_deception (deception_reply aligned_replies)) \<rparr>
     = Some (JObj [(''is_aligned'', JBool True), (''alignment_score'', JFloat (float_literal (9 / 10)))])
   \<and> fst (oracle_analyze ex_fmt ascii_lower num_sum_left_to_right ''key'' 0 aligned_replies (init_oracle default_oracle_config)
          (mk_action ''1'' ''ag'' API_CALL)) = Inl ValueError"
  by (simp add: oracle_analyze_def aligned_replies_def init_oracle_def default_oracle_config_def
        get_enable_caching_def analyze_intent_def analyze_goal_alignment_def detect_deception_def
        present_def aggregate_oracle_results_def optional_part_def alignment_part_def
        deception_part_def as_dict_def as_number_def bind_err_def py_get_def Let_def
        num_greater_def float_literal_def round_double_tenth round_double_seven_tenths)

lemma overconfident_assessment:
  "fst (oracle_analyze ex_fmt ascii_lower num_sum_left_to_right ''key'' 0 overconfident_replies (init_oracle default_oracle_config) a)
     = Inr (Some \<lparr> ta_action_id = action_id a, threat_level = SAFE, confidence = Finite 5,
              reasons = [''Inten'' @ [CHR 0xC3, CHR 0xA7, CHR 0xC3, CHR 0xA3] @ ''o detectada: desconhecida''],
              recommended_action = ALLOW, analysis_layer = ''oracle'', ta_timestamp = 0 \<rparr>)"
  by (simp add: oracle_analyze_def overconfident_replies_def init_oracle_def default_oracle_config_def
        get_enable_caching_def analyze_intent_def analyze_goal_alignment_def detect_deception_def
        present_def aggregate_oracle_results_def optional_part_def intent_part_def
        as_dict_def as_number_def extend_with_def bind_err_def py_get_def py_str_def Let_def
        threat_key_def threat_mapping_def first_max_by_def determine_enforcement_def
        get_min_confidence_def sum_values_def num_sum_left_to_right_def num_div_count_def
        float_literal_def round_double_five round_double_three_fifths)

text \<open>
  Claim C2 asks that every confidence lies in \<open>[0,1]\<close>, whatever the backend reports.
  The oracle averages the reported confidences as they are: an intent analysis that
  reports the confidence 5 gives an oracle assessment of confidence 5, and a core
  consulting that oracle alone aggregates to confidence 5.
\<close>

theorem oracle_confidence_above_one:
  "map_sum id (map_option confidence)
      (fst (oracle_analyze ex_fmt ascii_lower num_sum_left_to_right ''key'' 0 overconfident_replies (init_oracle default_oracle_config)
             (mk_action ''1'' ''ag'' API_CALL))) = Inr (Some (Finite 5))
   \<and> confidence (fst (process_action float_sum_left_to_right
                         (always_analyze_core (oracle_callback overconfident_replies)) 0
                         (mk_action ''1'' ''ag'' API_CALL))) = Finite 5"
proof -
  let ?a = "mk_action ''1'' ''ag'' API_CALL"
  let ?s = "always_analyze_core (oracle_callback overconfident_replies)"
  have cb: "layer_callbacks ?s Perimeter = []" "layer_callbacks ?s Heuristics = []"
       "layer_callbacks ?s Oracle = [oracle_callback overconfident_replies]"
    by (simp_all add: always_analyze_core_def add_layer_callback_def init_core_def config_or_default_def)
  have ns: "\<not> short_circuits (layer_result (layer_callbacks ?s Perimeter) ?a)"
    by (simp add: cb no_callbacks_result short_circuits_def)
  have esc: "should_escalate_to_oracle ?s ?a None None"
    by (simp add: should_escalate_to_oracle_def oracle_config_def always_analyze_core_def
          add_layer_callback_def init_core_def config_or_default_def get_always_analyze_def)
  have orc: "oracle_result ?s ?a = Some \<lparr> ta_action_id = action_id ?a, threat_level = SAFE, confidence = Finite 5,
              reasons = [''Inten'' @ [CHR 0xC3, CHR 0xA7, CHR 0xC3, CHR 0xA3] @ ''o detectada: desconhecida''],
              recommended_action = ALLOW, analysis_layer = ''oracle'', ta_timestamp = 0 \<rparr>"
    using esc
    by (simp add: oracle_result_def cb no_callbacks_result layer_result_def oracle_callback_def
          overconfident_assessment)
  have "confidence (fst (process_action float_sum_left_to_right ?s 0 ?a)) = Finite 5"
    unfolding process_action_long(1)[OF ns]
    by (simp add: cb no_callbacks_result orc aggregate_assessments_def List.map_filter_simps
          float_sum_left_to_right_examples round_double_five)
  then show ?thesis
    by (simp add: overconfident_assessment)
qed


end
